theory Spec2Isabelle
  imports Main "HOL-Library.Sublist"
begin


section \<open>Data model\<close>

text \<open>
  A crawled record is a Python \<^verbatim>\<open>Dict[str, str]\<close>: a finite map from field names to
  text. The extractors fill the keys \<^verbatim>\<open>title\<close> and \<^verbatim>\<open>url\<close>; the store reads them with
  \<^verbatim>\<open>item['url']\<close>, which raises \<^verbatim>\<open>KeyError\<close> when the key is missing.

  Text is modelled by \<^typ>\<open>string\<close>; a character of the model stands for one code point
  below 256.
\<close>

type_synonym item = "string \<rightharpoonup> string"

datatype py_error =
    KeyError string
  | AttributeError string
  | ValueError_unsupported string "string list"

definition subscript :: "item \<Rightarrow> string \<Rightarrow> py_error + string" where
  "subscript it k = (case it k of None \<Rightarrow> Inl (KeyError k) | Some v \<Rightarrow> Inr v)"

text \<open>The JSON object that \<^verbatim>\<open>save_data\<close> dumps into a source's data file.\<close>

record data_file =
  df_url :: string
  df_source_key :: "string option"
  df_source_name :: "string option"
  df_last_updated :: string
  df_total_count :: nat
  df_items :: "item list"

text \<open>One element of the JSON array kept in a source's history file.\<close>

record history_entry =
  he_timestamp :: string
  he_source_key :: "string option"
  he_source_name :: "string option"
  he_new_items_count :: nat
  he_new_items :: "item list"

text \<open>
  The content of a file of the data directory, as \<^verbatim>\<open>json.load\<close> sees it: the object
  written by \<^verbatim>\<open>save_data\<close>, the array written by \<^verbatim>\<open>_save_history\<close>, or text on which
  \<^verbatim>\<open>json.load\<close> raises. The file system maps a path to its content; an absent path
  is a file that does not exist.
\<close>

datatype json_file =
    JsonData data_file
  | JsonHistory "history_entry list"
  | Unparseable

type_synonym filesystem = "string \<rightharpoonup> json_file"

text \<open>
  Library functions the store calls: \<^verbatim>\<open>hashlib.md5(url.encode('utf-8')).hexdigest()\<close>
  and the character class \<^verbatim>\<open>\w\<close> of \<^verbatim>\<open>re\<close>.
\<close>

record pylib =
  md5_hexdigest :: "string \<Rightarrow> string"
  re_w :: "char \<Rightarrow> bool"

record DataStorage =
  data_dir :: string

section \<open>storage.py\<close>

text \<open>\<^verbatim>\<open>os.path.join(a, b)\<close> on POSIX, for two components.\<close>

definition os_path_join :: "string \<Rightarrow> string \<Rightarrow> string" where
  "os_path_join a b =
     (if b \<noteq> [] \<and> hd b = CHR ''/'' then b
      else if a = [] \<or> last a = CHR ''/'' then a @ b
      else a @ ''/'' @ b)"

text \<open>
  \<^verbatim>\<open>re.sub\<close> with a negated character class: every character of the source name
  that is neither a word character, nor in the range U+4E00 to U+9FFF, nor a hyphen, nor
  an underscore becomes an underscore. The range has no character below 256.
\<close>

definition clean_name :: "pylib \<Rightarrow> string \<Rightarrow> string" where
  "clean_name L source_name =
     map (\<lambda>c. if re_w L c \<or> c = CHR ''-'' \<or> c = CHR ''_'' then c else CHR ''_'') source_name"

definition get_file_name :: "pylib \<Rightarrow> string \<Rightarrow> string option \<Rightarrow> string" where
  "get_file_name L url source_name =
     (case source_name of
        None \<Rightarrow> md5_hexdigest L url
      | Some n \<Rightarrow> if n \<noteq> [] then clean_name L n else md5_hexdigest L url)"

definition get_data_file :: "pylib \<Rightarrow> DataStorage \<Rightarrow> string \<Rightarrow> string option \<Rightarrow> string" where
  "get_data_file L self url source_name =
     os_path_join (data_dir self) (get_file_name L url source_name @ ''.json'')"

definition get_history_file :: "pylib \<Rightarrow> DataStorage \<Rightarrow> string \<Rightarrow> string option \<Rightarrow> string" where
  "get_history_file L self url source_name =
     os_path_join (data_dir self) (get_file_name L url source_name @ ''_history.json'')"

text \<open>
  What \<^verbatim>\<open>load_existing_data\<close> returns: the empty dict when the file is absent or
  \<^verbatim>\<open>json.load\<close> raises (the exception is caught and logged), else the loaded value.
\<close>

datatype loaded = EmptyDict | Dict data_file | Array "history_entry list"

definition load_existing_data ::
  "pylib \<Rightarrow> DataStorage \<Rightarrow> filesystem \<Rightarrow> string \<Rightarrow> string option \<Rightarrow> loaded" where
  "load_existing_data L self fs url source_name =
     (case fs (get_data_file L self url source_name) of
        None \<Rightarrow> EmptyDict
      | Some Unparseable \<Rightarrow> EmptyDict
      | Some (JsonData d) \<Rightarrow> Dict d
      | Some (JsonHistory h) \<Rightarrow> Array h)"

text \<open>\<^verbatim>\<open>data.get('items', [])\<close>; a list has no method \<^verbatim>\<open>get\<close>.\<close>

definition get_items :: "loaded \<Rightarrow> py_error + item list" where
  "get_items v =
     (case v of
        EmptyDict \<Rightarrow> Inr []
      | Dict d \<Rightarrow> Inr (df_items d)
      | Array h \<Rightarrow> Inl (AttributeError ''get''))"

text \<open>\<^verbatim>\<open>{item['url'] for item in existing_items}\<close>\<close>

fun url_set :: "item list \<Rightarrow> py_error + string set" where
  "url_set [] = Inr {}"
| "url_set (it # its) =
     (case subscript it ''url'' of
        Inl e \<Rightarrow> Inl e
      | Inr u \<Rightarrow> (case url_set its of Inl e \<Rightarrow> Inl e | Inr us \<Rightarrow> Inr (insert u us)))"

text \<open>\<^verbatim>\<open>[item for item in results if item['url'] not in existing_urls]\<close>\<close>

fun not_in_urls :: "string set \<Rightarrow> item list \<Rightarrow> py_error + item list" where
  "not_in_urls existing_urls [] = Inr []"
| "not_in_urls existing_urls (it # its) =
     (case subscript it ''url'' of
        Inl e \<Rightarrow> Inl e
      | Inr u \<Rightarrow>
          (case not_in_urls existing_urls its of
             Inl e \<Rightarrow> Inl e
           | Inr rest \<Rightarrow> Inr (if u \<in> existing_urls then rest else it # rest)))"

text \<open>
  \<^verbatim>\<open>history[-50:]\<close> when the history has more than 50 entries.
\<close>

definition cap50 :: "'a list \<Rightarrow> 'a list" where
  "cap50 history = (if length history > 50 then drop (length history - 50) history else history)"

text \<open>
  \<^verbatim>\<open>_save_history\<close>. The second \<^verbatim>\<open>datetime.now().isoformat()\<close> of a save is the
  argument \<open>now\<close>. A history file that fails to parse is read as the empty history; one
  that holds a JSON object makes \<^verbatim>\<open>history.append\<close> raise.
\<close>

definition save_history ::
  "pylib \<Rightarrow> DataStorage \<Rightarrow> filesystem \<Rightarrow> string \<Rightarrow> item list \<Rightarrow> string option \<Rightarrow>
   string option \<Rightarrow> string \<Rightarrow> filesystem \<times> (py_error + unit)" where
  "save_history L self fs url new_items source_key source_name now =
     (if new_items = [] then (fs, Inr ())
      else
        let history_file = get_history_file L self url source_name;
            history_entry = \<lparr> he_timestamp = now, he_source_key = source_key,
                              he_source_name = source_name,
                              he_new_items_count = length new_items,
                              he_new_items = new_items \<rparr>
        in (case fs history_file of
              Some (JsonData d) \<Rightarrow> (fs, Inl (AttributeError ''append''))
            | Some (JsonHistory history) \<Rightarrow>
                (fs(history_file \<mapsto> JsonHistory (cap50 (history @ [history_entry]))), Inr ())
            | _ \<Rightarrow> (fs(history_file \<mapsto> JsonHistory (cap50 ([] @ [history_entry]))), Inr ())))"

text \<open>
  \<^verbatim>\<open>save_data\<close>. The result pairs the file system after the call with the returned
  \<^verbatim>\<open>(all_items, new_items)\<close> or the exception raised. \<open>now1\<close> and \<open>now2\<close> are the
  two readings of the clock.
\<close>

definition save_data ::
  "pylib \<Rightarrow> DataStorage \<Rightarrow> filesystem \<Rightarrow> string \<Rightarrow> item list \<Rightarrow> string option \<Rightarrow>
   string option \<Rightarrow> string \<Rightarrow> string \<Rightarrow> filesystem \<times> (py_error + item list \<times> item list)" where
  "save_data L self fs url results source_key source_name now1 now2 =
     (case get_items (load_existing_data L self fs url source_name) of
        Inl e \<Rightarrow> (fs, Inl e)
      | Inr existing_items \<Rightarrow>
     (case url_set existing_items of
        Inl e \<Rightarrow> (fs, Inl e)
      | Inr existing_urls \<Rightarrow>
     (case not_in_urls existing_urls results of
        Inl e \<Rightarrow> (fs, Inl e)
      | Inr new_items \<Rightarrow>
          let all_items = existing_items @ new_items;
              updated_data = \<lparr> df_url = url, df_source_key = source_key,
                               df_source_name = source_name, df_last_updated = now1,
                               df_total_count = length all_items, df_items = all_items \<rparr>;
              fs1 = fs(get_data_file L self url source_name \<mapsto> JsonData updated_data)
          in (case save_history L self fs1 url new_items source_key source_name now2 of
                (fs2, Inl e) \<Rightarrow> (fs2, Inl e)
              | (fs2, Inr u) \<Rightarrow> (fs2, Inr (all_items, new_items))))))"

text \<open>
  \<^verbatim>\<open>export_to_csv\<close>: the rows handed to the CSV writer, header first. The function
  loads with \<^verbatim>\<open>load_existing_data(url)\<close>, that is with no source name. The header
  cells are the UTF-8 bytes of the three Chinese captions.
\<close>

definition csv_header :: "string list" where
  "csv_header =
     [[CHR 0xE6, CHR 0xA0, CHR 0x87, CHR 0xE9, CHR 0xA2, CHR 0x98],
      [CHR 0xE9, CHR 0x93, CHR 0xBE, CHR 0xE6, CHR 0x8E, CHR 0xA5,
       CHR 0xE5, CHR 0x9C, CHR 0xB0, CHR 0xE5, CHR 0x9D, CHR 0x80],
      [CHR 0xE5, CHR 0x8F, CHR 0x91, CHR 0xE7, CHR 0x8E, CHR 0xB0,
       CHR 0xE6, CHR 0x97, CHR 0xB6, CHR 0xE9, CHR 0x97, CHR 0xB4]]"

definition csv_row :: "item \<Rightarrow> py_error + string list" where
  "csv_row it =
     (case subscript it ''title'' of
        Inl e \<Rightarrow> Inl e
      | Inr t \<Rightarrow>
          (case subscript it ''url'' of
             Inl e \<Rightarrow> Inl e
           | Inr u \<Rightarrow>
               Inr [t, u, (case it ''discovered_at'' of None \<Rightarrow> [] | Some d \<Rightarrow> d)]))"

fun csv_rows :: "item list \<Rightarrow> py_error + string list list" where
  "csv_rows [] = Inr []"
| "csv_rows (it # its) =
     (case csv_row it of
        Inl e \<Rightarrow> Inl e
      | Inr r \<Rightarrow> (case csv_rows its of Inl e \<Rightarrow> Inl e | Inr rs \<Rightarrow> Inr (r # rs)))"

definition export_to_csv ::
  "pylib \<Rightarrow> DataStorage \<Rightarrow> filesystem \<Rightarrow> string \<Rightarrow> py_error + string list list" where
  "export_to_csv L self fs url =
     (case get_items (load_existing_data L self fs url None) of
        Inl e \<Rightarrow> Inl e
      | Inr its \<Rightarrow> (case csv_rows its of Inl e \<Rightarrow> Inl e | Inr rs \<Rightarrow> Inr (csv_header # rs)))"

text \<open>
  \<^verbatim>\<open>get_summary\<close>. The dict it returns is built field by field: \<^verbatim>\<open>data.get\<close> raises when
  the data file holds an array, and \<^verbatim>\<open>history[-1]\<close> raises when the history file holds
  an object (a non-empty dict without the key \<^verbatim>\<open>-1\<close>).
\<close>

record summary =
  sm_url :: string
  sm_source_key :: "string option"
  sm_source_name :: "string option"
  sm_total_items :: nat
  sm_last_updated :: string
  sm_history_entries :: nat
  sm_latest_new_items :: nat

definition get_summary ::
  "pylib \<Rightarrow> DataStorage \<Rightarrow> filesystem \<Rightarrow> string \<Rightarrow> string option \<Rightarrow> py_error + summary" where
  "get_summary L self fs url source_name =
     (let data = load_existing_data L self fs url source_name;
          history_file = get_history_file L self url source_name;
          history = (case fs history_file of Some (JsonHistory h) \<Rightarrow> h | _ \<Rightarrow> [])
      in case data of
           Array a \<Rightarrow> Inl (AttributeError ''get'')
         | _ \<Rightarrow>
             (case fs history_file of
                Some (JsonData d) \<Rightarrow> Inl (KeyError ''-1'')
              | _ \<Rightarrow>
                  Inr \<lparr> sm_url = url,
                        sm_source_key = (case data of Dict d \<Rightarrow> df_source_key d | _ \<Rightarrow> None),
                        sm_source_name = (case data of Dict d \<Rightarrow> df_source_name d | _ \<Rightarrow> None),
                        sm_total_items = (case data of Dict d \<Rightarrow> df_total_count d | _ \<Rightarrow> 0),
                        sm_last_updated =
                          (case data of Dict d \<Rightarrow> df_last_updated d | _ \<Rightarrow> ''Never''),
                        sm_history_entries = length history,
                        sm_latest_new_items =
                          (if history \<noteq> [] then he_new_items_count (last history) else 0) \<rparr>))"

section \<open>base_crawler.py\<close>

text \<open>
  The crawler talks to three collaborators: the network (\<^verbatim>\<open>session.get\<close>), the clock
  (\<^verbatim>\<open>time.sleep\<close>) and the pagination method of its subclass. The calls it makes are
  kept, in order, in a trace. The network answers the \<open>i\<close>-th request of a run, for an
  address, with a parsed page or with a failure: \<open>None\<close> stands for any exception
  raised inside the \<^verbatim>\<open>try\<close> block of \<^verbatim>\<open>fetch_page\<close>, all of which it catches.
\<close>

datatype event = Get string | Sleep nat | NextPage string int

record world =
  gets :: nat
  trace :: "event list"

type_synonym 'p network = "nat \<Rightarrow> string \<Rightarrow> 'p option"

text \<open>The abstract methods a subclass of \<^verbatim>\<open>BaseCrawler\<close> implements.\<close>

record 'p crawler =
  extract_search_results :: "'p \<Rightarrow> item list"
  build_next_page_url :: "string \<Rightarrow> int \<Rightarrow> string option"

text \<open>
  \<^verbatim>\<open>fetch_page\<close>: the loop \<^verbatim>\<open>for attempt in range(max_retries)\<close>, from the attempt
  given. When the range is empty the function falls off its end and returns \<^verbatim>\<open>None\<close>.
\<close>

function fetch_attempts ::
  "'p network \<Rightarrow> string \<Rightarrow> int \<Rightarrow> int \<Rightarrow> world \<Rightarrow> 'p option \<times> world" where
  "fetch_attempts net url max_retries attempt w =
     (if attempt < max_retries then
        (let w1 = w\<lparr> gets := gets w + 1, trace := trace w @ [Get url] \<rparr>
         in case net (gets w) url of
              Some soup \<Rightarrow> (Some soup, w1)
            | None \<Rightarrow>
                if attempt < max_retries - 1
                then fetch_attempts net url max_retries (attempt + 1)
                       (w1\<lparr> trace := trace w1 @ [Sleep (2 ^ nat attempt)] \<rparr>)
                else (None, w1))
      else (None, w))"
  by pat_completeness auto
termination
  by (relation "measure (\<lambda>(net, url, max_retries, attempt, w). nat (max_retries - attempt))") auto

declare fetch_attempts.simps [simp del]

definition fetch_page :: "'p network \<Rightarrow> string \<Rightarrow> int \<Rightarrow> world \<Rightarrow> 'p option \<times> world" where
  "fetch_page net url max_retries w = fetch_attempts net url max_retries 0 w"

text \<open>
  \<^verbatim>\<open>crawl_search_url\<close>. The test \<^verbatim>\<open>not next_page_url\<close> holds for \<^verbatim>\<open>None\<close> and for the
  empty text; \<^verbatim>\<open>not next_results\<close> holds for the empty list. Pages are fetched with
  the default bound of 3 attempts.
\<close>

function crawl_pages ::
  "'p crawler \<Rightarrow> 'p network \<Rightarrow> string \<Rightarrow> int \<Rightarrow> int \<Rightarrow> item list \<Rightarrow> world \<Rightarrow>
   item list \<times> world" where
  "crawl_pages c net url max_pages page_num results w =
     (if page_num < max_pages - 1 then
        (let next_page_url = build_next_page_url c url (page_num + 1);
             w1 = w\<lparr> trace := trace w @ [NextPage url (page_num + 1)] \<rparr>
         in case next_page_url of
              None \<Rightarrow> (results, w1)
            | Some u \<Rightarrow>
                if u = [] then (results, w1)
                else (case fetch_page net u 3 w1 of
                        (None, w2) \<Rightarrow> (results, w2)
                      | (Some next_soup, w2) \<Rightarrow>
                          (let next_results = extract_search_results c next_soup
                           in if next_results = [] then (results, w2)
                              else crawl_pages c net url max_pages (page_num + 1)
                                     (results @ next_results)
                                     (w2\<lparr> trace := trace w2 @ [Sleep 1] \<rparr>))))
      else (results, w))"
  by pat_completeness auto
termination
  by (relation "measure (\<lambda>(c, net, url, max_pages, page_num, results, w).
                   nat (max_pages - 1 - page_num))") auto

declare crawl_pages.simps [simp del]

definition crawl_search_url ::
  "'p crawler \<Rightarrow> 'p network \<Rightarrow> string \<Rightarrow> int \<Rightarrow> world \<Rightarrow> item list \<times> world" where
  "crawl_search_url c net url max_pages w =
     (case fetch_page net url 3 w of
        (None, w1) \<Rightarrow> ([], w1)
      | (Some soup, w1) \<Rightarrow> crawl_pages c net url max_pages 0 (extract_search_results c soup) w1)"

section \<open>sichuan_fgw_crawler.py and example_other_site_crawler.py\<close>

text \<open>\<^verbatim>\<open>sub in s\<close> on text.\<close>

fun str_contains :: "string \<Rightarrow> string \<Rightarrow> bool" where
  "str_contains sub [] = (sub = [])"
| "str_contains sub (c # cs) = (prefix sub (c # cs) \<or> str_contains sub cs)"

text \<open>The decimal text of an integer, as an f-string renders it.\<close>

function str_nat :: "nat \<Rightarrow> string" where
  "str_nat n = (if n < 10 then [''0123456789'' ! n]
                else str_nat (n div 10) @ [''0123456789'' ! (n mod 10)])"
  by pat_completeness auto
termination
  by (relation "measure id") auto

declare str_nat.simps [simp del]

definition str_int :: "int \<Rightarrow> string" where
  "str_int i = (if i < 0 then CHR ''-'' # str_nat (nat (- i)) else str_nat (nat i))"

text \<open>
  \<^verbatim>\<open>re.sub(key + r'\d+', repl, s)\<close> for a literal \<open>key\<close> and a replacement without
  escapes: from left to right, every occurrence of \<open>key\<close> followed by at least one
  digit is replaced, together with all the digits that follow it; everything else is
  copied. Among the characters below 256 the class \<^verbatim>\<open>\d\<close> holds the ten ASCII digits.
\<close>

definition is_digit :: "char \<Rightarrow> bool" where
  "is_digit c = (c \<in> set ''0123456789'')"

function re_sub_key_digits :: "string \<Rightarrow> string \<Rightarrow> string \<Rightarrow> string" where
  "re_sub_key_digits key repl s =
     (if s = [] then []
      else if prefix key s \<and> takeWhile is_digit (drop (length key) s) \<noteq> []
      then repl @ re_sub_key_digits key repl (dropWhile is_digit (drop (length key) s))
      else hd s # re_sub_key_digits key repl (tl s))"
  by pat_completeness auto
termination
proof (relation "measure (\<lambda>(key, repl, s). length s)")
  fix key repl :: string and s :: string
  assume "s \<noteq> []" and "prefix key s \<and> takeWhile is_digit (drop (length key) s) \<noteq> []"
  then have "length (dropWhile is_digit (drop (length key) s)) < length (drop (length key) s)"
    by (metis length_dropWhile_le takeWhile_dropWhile_id le_neq_implies_less
        length_append less_add_same_cancel2 length_greater_0_conv nat_neq_iff)
  then show "((key, repl, dropWhile is_digit (drop (length key) s)), (key, repl, s))
             \<in> measure (\<lambda>(key, repl, s). length s)"
    by simp
qed auto

declare re_sub_key_digits.simps [simp del]

definition sichuan_build_next_page_url :: "string \<Rightarrow> int \<Rightarrow> string option" where
  "sichuan_build_next_page_url base_url page_num =
     (if str_contains ''pageNum='' base_url
      then Some (re_sub_key_digits ''pageNum='' (''pageNum='' @ str_int page_num) base_url)
      else (let separator = (if str_contains ''?'' base_url then ''&'' else ''?'')
            in Some (base_url @ separator @ ''pageNum='' @ str_int page_num)))"

definition example_build_next_page_url :: "string \<Rightarrow> int \<Rightarrow> string option" where
  "example_build_next_page_url base_url page_num =
     (if str_contains ''page='' base_url
      then Some (re_sub_key_digits ''page='' (''page='' @ str_int page_num) base_url)
      else if str_contains ''p='' base_url
      then Some (re_sub_key_digits ''p='' (''p='' @ str_int page_num) base_url)
      else (let separator = (if str_contains ''?'' base_url then ''&'' else ''?'')
            in Some (base_url @ separator @ ''page='' @ str_int page_num)))"

text \<open>
  The two crawler classes. What a class extracts from a page depends on the HTML parser
  and is a parameter.
\<close>

definition SichuanFGWCrawler :: "('p \<Rightarrow> item list) \<Rightarrow> 'p crawler" where
  "SichuanFGWCrawler extract =
     \<lparr> extract_search_results = extract, build_next_page_url = sichuan_build_next_page_url \<rparr>"


section \<open>crawler_factory.py\<close>

text \<open>
  The class attribute \<^verbatim>\<open>_crawlers\<close> is a dict from type names to crawler classes, kept in
  insertion order; a class stands for the instance its constructor builds, which makes
  no request. \<^verbatim>\<open>create_crawler\<close> raises a \<^verbatim>\<open>ValueError\<close> whose message names the
  requested type and lists the keys of the dict.
\<close>

type_synonym 'p registry = "(string \<times> 'p crawler) list"

definition get_available_crawlers :: "'p registry \<Rightarrow> string list" where
  "get_available_crawlers crawlers = map fst crawlers"

definition create_crawler :: "'p registry \<Rightarrow> string \<Rightarrow> py_error + 'p crawler" where
  "create_crawler crawlers crawler_type =
     (case map_of crawlers crawler_type of
        None \<Rightarrow> Inl (ValueError_unsupported crawler_type (get_available_crawlers crawlers))
      | Some crawler_class \<Rightarrow> Inr crawler_class)"

section \<open>crawler_manager.py and main.py\<close>

text \<open>An enabled entry of \<^verbatim>\<open>search_urls\<close>, and the result recorded for it.\<close>

record search_url =
  su_key :: string
  su_name :: string
  su_url :: string
  su_crawler_type :: string

record config_result =
  cr_key :: string
  cr_name :: string
  cr_url :: string
  cr_crawler_type :: string
  cr_crawled_count :: nat
  cr_new_count :: nat
  cr_total_count :: nat
  cr_new_items :: "item list"
  cr_error :: "py_error option"

text \<open>
  What the loop over the sources carries from one source to the next: the network and
  the trace, the data directory, and the two totals.
\<close>

record run_state =
  rs_world :: world
  rs_fs :: filesystem
  total_new_items :: nat
  total_all_items :: nat

text \<open>
  The loop that logs the titles of the first five new records:
  \<^verbatim>\<open>for item in new_items[:5]: logging.info(item['title'])\<close>. It raises \<^verbatim>\<open>KeyError\<close> at
  the first of them that has no title.
\<close>

fun log_titles :: "item list \<Rightarrow> py_error + unit" where
  "log_titles [] = Inr ()"
| "log_titles (it # its) =
     (case subscript it ''title'' of Inl e \<Rightarrow> Inl e | Inr t \<Rightarrow> log_titles its)"

text \<open>
  The body of the loop of \<^verbatim>\<open>run_crawler\<close>, for one source. \<open>clock\<close> gives, by source
  key, the two clock readings of the save. The \<^verbatim>\<open>except Exception\<close> clause records the
  exception in the result; what the body did before the exception stays done.
\<close>

definition run_crawler_body ::
  "pylib \<Rightarrow> DataStorage \<Rightarrow> 'p registry \<Rightarrow> 'p network \<Rightarrow> (string \<Rightarrow> string \<times> string) \<Rightarrow> int \<Rightarrow>
   search_url \<Rightarrow> run_state \<Rightarrow> run_state \<times> config_result" where
  "run_crawler_body L storage crawlers net clock max_pages url_config st =
     (let config_result = \<lparr> cr_key = su_key url_config, cr_name = su_name url_config,
                             cr_url = su_url url_config,
                             cr_crawler_type = su_crawler_type url_config,
                             cr_crawled_count = 0, cr_new_count = 0, cr_total_count = 0,
                             cr_new_items = [], cr_error = None \<rparr>
      in case create_crawler crawlers (su_crawler_type url_config) of
           Inl e \<Rightarrow> (st, config_result\<lparr> cr_error := Some e \<rparr>)
         | Inr crawler \<Rightarrow>
             (case crawl_search_url crawler net (su_url url_config) max_pages (rs_world st) of
                (results, w1) \<Rightarrow>
                  (let st1 = st\<lparr> rs_world := w1 \<rparr>;
                       config_result1 = config_result\<lparr> cr_crawled_count := length results \<rparr>
                   in if results \<noteq> [] then
                        (case save_data L storage (rs_fs st1) (su_url url_config) results
                                (Some (su_key url_config)) (Some (su_name url_config))
                                (fst (clock (su_key url_config)))
                                (snd (clock (su_key url_config))) of
                           (fs1, Inl e) \<Rightarrow>
                             (st1\<lparr> rs_fs := fs1 \<rparr>, config_result1\<lparr> cr_error := Some e \<rparr>)
                         | (fs1, Inr (all_items, new_items)) \<Rightarrow>
                             (let st2 = st1\<lparr> rs_fs := fs1,
                                    total_all_items := total_all_items st1 + length all_items,
                                    total_new_items := total_new_items st1 + length new_items \<rparr>;
                                  config_result2 = config_result1\<lparr>
                                    cr_new_count := length new_items,
                                    cr_total_count := length all_items,
                                    cr_new_items := new_items \<rparr>
                              in case log_titles (take 5 new_items) of
                                   Inl e \<Rightarrow> (st2, config_result2\<lparr> cr_error := Some e \<rparr>)
                                 | Inr u \<Rightarrow>
                                     (case get_summary L storage fs1 (su_url url_config)
                                             (Some (su_name url_config)) of
                                        Inl e \<Rightarrow>
                                          (st2, config_result2\<lparr> cr_error := Some e \<rparr>)
                                      | Inr summary \<Rightarrow> (st2, config_result2))))
                      else (st1, config_result1))))"


text \<open>
  The body of the loop of \<^verbatim>\<open>main\<close> in main.py: the same steps, with no result record;
  an exception is logged and dropped. The titles and the summary read after a save are
  only logged, so neither they nor an exception they raise leave a mark on the state.
\<close>

definition main_body ::
  "pylib \<Rightarrow> DataStorage \<Rightarrow> 'p registry \<Rightarrow> 'p network \<Rightarrow> (string \<Rightarrow> string \<times> string) \<Rightarrow> int \<Rightarrow>
   search_url \<Rightarrow> run_state \<Rightarrow> run_state" where
  "main_body L storage crawlers net clock max_pages url_config st =
     (case create_crawler crawlers (su_crawler_type url_config) of
        Inl e \<Rightarrow> st
      | Inr crawler \<Rightarrow>
          (case crawl_search_url crawler net (su_url url_config) max_pages (rs_world st) of
             (results, w1) \<Rightarrow>
               (let st1 = st\<lparr> rs_world := w1 \<rparr>
                in if results \<noteq> [] then
                     (case save_data L storage (rs_fs st1) (su_url url_config) results
                             (Some (su_key url_config)) (Some (su_name url_config))
                             (fst (clock (su_key url_config)))
                             (snd (clock (su_key url_config))) of
                        (fs1, Inl e) \<Rightarrow> st1\<lparr> rs_fs := fs1 \<rparr>
                      | (fs1, Inr (all_items, new_items)) \<Rightarrow>
                          st1\<lparr> rs_fs := fs1,
                               total_all_items := total_all_items st1 + length all_items,
                               total_new_items := total_new_items st1 + length new_items \<rparr>)
                   else st1)))"

section \<open>Vocabulary of the statements about the store\<close>

text \<open>A record that carries the key \<^verbatim>\<open>url\<close>, and the value under it.\<close>

definition has_url :: "item \<Rightarrow> bool" where
  "has_url it = (it ''url'' \<noteq> None)"

definition url_of :: "item \<Rightarrow> string" where
  "url_of it = (case it ''url'' of None \<Rightarrow> [] | Some u \<Rightarrow> u)"

text \<open>The record sequence a data file holds, and the array a history file holds.\<close>

definition stored_items :: "filesystem \<Rightarrow> string \<Rightarrow> item list" where
  "stored_items fs path = (case fs path of Some (JsonData d) \<Rightarrow> df_items d | _ \<Rightarrow> [])"






text \<open>
  Concrete inputs for the worked examples: a library whose word characters are the
  ASCII ones and whose digest is a fixed text of 32 characters, the default data
  directory, and a record with the two keys the extractors fill.
\<close>

definition ascii_word :: "char \<Rightarrow> bool" where
  "ascii_word c = (c \<in> set ''abcdefghijklmnopqrstuvwxyzABCDEFGHIJKLMNOPQRSTUVWXYZ0123456789_'')"

definition test_lib :: pylib where
  "test_lib = \<lparr> md5_hexdigest = (\<lambda>u. replicate 32 (CHR ''0'')), re_w = ascii_word \<rparr>"

definition test_storage :: DataStorage where
  "test_storage = \<lparr> data_dir = ''data'' \<rparr>"

definition mk_item :: "string \<Rightarrow> string \<Rightarrow> item" where
  "mk_item t u = [''title'' \<mapsto> t, ''url'' \<mapsto> u]"

section \<open>Vocabulary of the statements about the crawl loop\<close>

text \<open>
  The crawl loop in the words of the specification: fetch the start address; if the
  fetch fails, return nothing. Extract the records of page 0. Then, for each page index
  from 1 to \<open>max_pages - 1\<close>: ask the extractor for the next address, from the original
  start address and the page index; if there is none, stop. Fetch that address; if the
  fetch fails, stop. Extract; if there are no records, stop. Otherwise append them,
  pause for a second and go on. An address counts as none when the loop's test
  \<^verbatim>\<open>not next_page_url\<close> holds of it.
\<close>

definition no_next_page :: "string option \<Rightarrow> bool" where
  "no_next_page next_page_url = (case next_page_url of None \<Rightarrow> True | Some u \<Rightarrow> u = [])"

definition address_of :: "string option \<Rightarrow> string" where
  "address_of next_page_url = (case next_page_url of None \<Rightarrow> [] | Some u \<Rightarrow> u)"

fun crawl_spec_pages ::
  "'p crawler \<Rightarrow> 'p network \<Rightarrow> string \<Rightarrow> int list \<Rightarrow> item list \<Rightarrow> world \<Rightarrow>
   item list \<times> world" where
  "crawl_spec_pages c net start_address [] acc w = (acc, w)"
| "crawl_spec_pages c net start_address (page_index # later) acc w =
     (let asked = w\<lparr> trace := trace w @ [NextPage start_address page_index] \<rparr>;
          next_address = build_next_page_url c start_address page_index
      in if no_next_page next_address then (acc, asked)
         else (case fetch_page net (address_of next_address) 3 asked of
                 (None, fetched) \<Rightarrow> (acc, fetched)
               | (Some page, fetched) \<Rightarrow>
                   (case extract_search_results c page of
                      [] \<Rightarrow> (acc, fetched)
                    | r # rs \<Rightarrow>
                        crawl_spec_pages c net start_address later (acc @ r # rs)
                          (fetched\<lparr> trace := trace fetched @ [Sleep 1] \<rparr>))))"

definition crawl_spec ::
  "'p crawler \<Rightarrow> 'p network \<Rightarrow> string \<Rightarrow> int \<Rightarrow> world \<Rightarrow> item list \<times> world" where
  "crawl_spec c net start_address max_pages w =
     (case fetch_page net start_address 3 w of
        (None, fetched) \<Rightarrow> ([], fetched)
      | (Some page, fetched) \<Rightarrow>
          crawl_spec_pages c net start_address [1..max_pages - 1]
            (extract_search_results c page) fetched)"

text \<open>The requests for a next-page address among the events of a trace.\<close>

fun is_next_page :: "event \<Rightarrow> bool" where
  "is_next_page (NextPage base page_num) = True"
| "is_next_page e = False"

text \<open>
  The events of a fetch that makes \<open>a\<close> attempts: a request, then before each further
  request a sleep of \<open>2 ^ i\<close> seconds, \<open>i\<close> counting the failed attempts from 0.
\<close>

definition attempts_trace :: "string \<Rightarrow> nat \<Rightarrow> event list" where
  "attempts_trace url a = Get url # concat (map (\<lambda>i. [Sleep (2 ^ i), Get url]) [0..<a - 1])"

text \<open>
  Concrete inputs for a worked example of the loop: a network on which every request
  succeeds and a page is known by its address, and a crawler of the first class whose
  extractor finds one record on every page but the one numbered 2.
\<close>

definition page_net :: "string network" where
  "page_net = (\<lambda>i u. Some u)"

definition page_crawler :: "string crawler" where
  "page_crawler = SichuanFGWCrawler
     (\<lambda>soup. if soup = ''http://x?pageNum=2'' then [] else [mk_item ''T'' soup])"




section \<open>Vocabulary of the statements about the runner\<close>

text \<open>
  The result the loop records for a source before anything has happened to it, and
  concrete inputs for the worked examples: the registry as the factory declares it, with
  an extractor that finds nothing, a network on which every request fails, and a clock.
\<close>

definition blank_result :: "search_url \<Rightarrow> config_result" where
  "blank_result url_config =
     \<lparr> cr_key = su_key url_config, cr_name = su_name url_config, cr_url = su_url url_config,
       cr_crawler_type = su_crawler_type url_config,
       cr_crawled_count = 0, cr_new_count = 0, cr_total_count = 0,
       cr_new_items = [], cr_error = None \<rparr>"

definition test_registry :: "unit registry" where
  "test_registry = [(''sichuan_fgw'', SichuanFGWCrawler (\<lambda>soup. []))]"

definition net_down :: "unit network" where
  "net_down = (\<lambda>i u. None)"

definition test_clock :: "string \<Rightarrow> string \<times> string" where
  "test_clock k = (''t1'', ''t2'')"

definition test_state :: run_state where
  "test_state = \<lparr> rs_world = \<lparr> gets = 0, trace = [] \<rparr>, rs_fs = Map.empty,
                   total_new_items = 0, total_all_items = 0 \<rparr>"

section \<open>Properties of the store\<close>

subsection \<open>Paths\<close>

lemma os_path_join_length:
  "length (os_path_join a (n @ s)) = length (os_path_join a (n @ t)) \<Longrightarrow>
   s \<noteq> [] \<Longrightarrow> t \<noteq> [] \<Longrightarrow> hd s \<noteq> CHR ''/'' \<Longrightarrow> hd t \<noteq> CHR ''/'' \<Longrightarrow> length s = length t"
  by (cases n) (auto simp: os_path_join_def split: if_splits)

lemma data_file_neq_history_file:
  "get_data_file L self url source_name \<noteq> get_history_file L self url source_name"
proof
  assume "get_data_file L self url source_name = get_history_file L self url source_name"
  then have "length (os_path_join (data_dir self) (get_file_name L url source_name @ ''.json''))
     = length (os_path_join (data_dir self) (get_file_name L url source_name @ ''_history.json''))"
    by (simp add: get_data_file_def get_history_file_def)
  from os_path_join_length[OF this] show False by simp
qed

lemma test_paths:
  "get_data_file test_lib test_storage u (Some ''src'') = ''data/src.json''"
  "get_history_file test_lib test_storage u (Some ''src'') = ''data/src_history.json''"
  by (simp_all add: get_data_file_def get_history_file_def get_file_name_def clean_name_def
      test_lib_def test_storage_def ascii_word_def os_path_join_def)

subsection \<open>The two comprehensions of \<^verbatim>\<open>save_data\<close>\<close>

lemma subscript_url:
  "subscript it ''url'' = (if has_url it then Inr (url_of it) else Inl (KeyError ''url''))"
  by (auto simp: subscript_def has_url_def url_of_def split: option.splits)

lemma mk_item_url [simp]: "subscript (mk_item t u) ''url'' = Inr u"
  by (simp add: mk_item_def subscript_def)

lemma url_set_Inr:
  "url_set its = Inr us \<Longrightarrow> list_all has_url its \<and> us = url_of ` set its"
  by (induction its arbitrary: us) (auto simp: subscript_url split: if_splits sum.splits)

lemma url_set_total:
  "list_all has_url its \<Longrightarrow> url_set its = Inr (url_of ` set its)"
  by (induction its) (auto simp: subscript_url)

lemma not_in_urls_Inr:
  "not_in_urls us rs = Inr new \<Longrightarrow>
     list_all has_url rs \<and> new = filter (\<lambda>it. url_of it \<notin> us) rs"
  by (induction rs arbitrary: new) (auto simp: subscript_url split: if_splits sum.splits)

lemma not_in_urls_total:
  "list_all has_url rs \<Longrightarrow> not_in_urls us rs = Inr (filter (\<lambda>it. url_of it \<notin> us) rs)"
  by (induction rs) (auto simp: subscript_url)

subsection \<open>A save that returns\<close>

lemma save_history_other:
  "save_history L self fs url new k n t = (fs', r) \<Longrightarrow>
   p \<noteq> get_history_file L self url n \<Longrightarrow> fs' p = fs p"
  by (auto simp: save_history_def Let_def split: if_splits option.splits json_file.splits)

lemma save_data_Inr:
  assumes "save_data L self fs url results k n t1 t2 = (fs', Inr (all, new))"
  shows "get_items (load_existing_data L self fs url n) =
           Inr (stored_items fs (get_data_file L self url n))"
    and "list_all has_url (stored_items fs (get_data_file L self url n))"
    and "list_all has_url results"
    and "new = filter (\<lambda>it. url_of it \<notin> url_of ` set (stored_items fs (get_data_file L self url n)))
                 results"
    and "all = stored_items fs (get_data_file L self url n) @ new"
    and "fs' (get_data_file L self url n) =
           Some (JsonData \<lparr> df_url = url, df_source_key = k, df_source_name = n,
             df_last_updated = t1, df_total_count = length all, df_items = all \<rparr>)"
    and "save_history L self
           (fs(get_data_file L self url n \<mapsto>
              JsonData \<lparr> df_url = url, df_source_key = k, df_source_name = n,
                df_last_updated = t1, df_total_count = length all, df_items = all \<rparr>))
           url new k n t2 = (fs', Inr ())"
proof -
  let ?p = "get_data_file L self url n"
  obtain ex where ex: "get_items (load_existing_data L self fs url n) = Inr ex"
    using assms by (auto simp: save_data_def split: sum.splits)
  have ex': "ex = stored_items fs ?p"
    using ex by (auto simp: get_items_def load_existing_data_def stored_items_def
        split: option.splits json_file.splits loaded.splits)
  obtain us where us: "url_set ex = Inr us"
    using assms ex by (auto simp: save_data_def split: sum.splits)
  obtain nw where nw: "not_in_urls us results = Inr nw"
    using assms ex us by (auto simp: save_data_def split: sum.splits)
  from assms ex us nw have
    sh: "save_history L self
           (fs(?p \<mapsto> JsonData \<lparr> df_url = url, df_source_key = k, df_source_name = n,
              df_last_updated = t1, df_total_count = length (ex @ nw), df_items = ex @ nw \<rparr>))
           url nw k n t2 = (fs', Inr ())"
    and eqs: "all = ex @ nw" "new = nw"
    by (auto simp: save_data_def Let_def split: sum.splits prod.splits)
  show "get_items (load_existing_data L self fs url n) = Inr (stored_items fs ?p)"
    using ex ex' by simp
  show "list_all has_url (stored_items fs ?p)" using url_set_Inr[OF us] ex' by simp
  show "list_all has_url results" using not_in_urls_Inr[OF nw] by simp
  show "new = filter (\<lambda>it. url_of it \<notin> url_of ` set (stored_items fs ?p)) results"
    using not_in_urls_Inr[OF nw] url_set_Inr[OF us] ex' eqs by simp
  show "all = stored_items fs ?p @ new" using eqs ex' by simp
  show "save_history L self
           (fs(?p \<mapsto> JsonData \<lparr> df_url = url, df_source_key = k, df_source_name = n,
              df_last_updated = t1, df_total_count = length all, df_items = all \<rparr>))
           url new k n t2 = (fs', Inr ())"
    using sh eqs by simp
  from save_history_other[OF this data_file_neq_history_file]
  show "fs' ?p = Some (JsonData \<lparr> df_url = url, df_source_key = k, df_source_name = n,
             df_last_updated = t1, df_total_count = length all, df_items = all \<rparr>)"
    by simp
qed

text \<open>
  A save returns whenever the data file of the source is absent, unreadable or an
  object whose records all carry a \<^verbatim>\<open>url\<close>, every input record carries one, and the
  history file does not hold an object.
\<close>

lemma save_history_returns:
  assumes "\<forall>d. fs (get_history_file L self url n) \<noteq> Some (JsonData d)"
  shows "\<exists>fs'. save_history L self fs url new k n t = (fs', Inr ())"
  using assms
  by (cases "fs (get_history_file L self url n)")
     (auto simp: save_history_def Let_def split: json_file.splits)

lemma save_data_returns:
  assumes "list_all has_url (stored_items fs (get_data_file L self url n))"
    and "list_all has_url results"
    and "\<forall>h. fs (get_data_file L self url n) \<noteq> Some (JsonHistory h)"
    and "\<forall>d. fs (get_history_file L self url n) \<noteq> Some (JsonData d)"
  shows "\<exists>fs' all new. save_data L self fs url results k n t1 t2 = (fs', Inr (all, new))"
proof -
  let ?p = "get_data_file L self url n"
  let ?ex = "stored_items fs ?p"
  let ?new = "filter (\<lambda>it. url_of it \<notin> url_of ` set ?ex) results"
  let ?fs1 = "fs(?p \<mapsto> JsonData \<lparr> df_url = url, df_source_key = k, df_source_name = n,
                 df_last_updated = t1, df_total_count = length (?ex @ ?new),
                 df_items = ?ex @ ?new \<rparr>)"
  have ld: "get_items (load_existing_data L self fs url n) = Inr ?ex"
    using assms(3)
    by (auto simp: get_items_def load_existing_data_def stored_items_def
        split: option.splits json_file.splits)
  have "\<forall>d. ?fs1 (get_history_file L self url n) \<noteq> Some (JsonData d)"
    using assms(4) data_file_neq_history_file[of L self url n] by auto
  then have "\<exists>fs2. save_history L self ?fs1 url ?new k n t2 = (fs2, Inr ())"
    by (rule save_history_returns[where fs = ?fs1 and L = L and self = self and url = url and n = n])
  then obtain fs2 where "save_history L self ?fs1 url ?new k n t2 = (fs2, Inr ())" by blast
  then have "save_data L self fs url results k n t1 t2 = (fs2, Inr (?ex @ ?new, ?new))"
    by (simp add: save_data_def ld url_set_total[OF assms(1)] not_in_urls_total[OF assms(2)]
        Let_def)
  then show ?thesis by blast
qed


subsection \<open>Idempotence\<close>

text \<open>
  Claim C1. Whenever a save returns, the same save repeated on the file system it left
  (with any later clock readings) returns too, reports no new record, and returns and
  stores the very sequence of records the first call returned and stored.
\<close>

theorem save_data_idempotent:
  assumes "save_data L self fs url results k n t1 t2 = (fs1, Inr (all1, new1))"
  shows "\<exists>fs2. save_data L self fs1 url results k n t3 t4 = (fs2, Inr (all1, []))
           \<and> stored_items fs2 (get_data_file L self url n) = all1
           \<and> stored_items fs1 (get_data_file L self url n) = all1"
proof -
  let ?p = "get_data_file L self url n"
  note f = save_data_Inr[OF assms]
  have st1: "stored_items fs1 ?p = all1" using f(6) by (simp add: stored_items_def)
  have ld: "get_items (load_existing_data L self fs1 url n) = Inr all1"
    using f(6) by (simp add: get_items_def load_existing_data_def)
  have hu: "list_all has_url all1"
    using f(2,3,4,5) by (auto simp: list_all_iff)
  have us: "url_set all1 = Inr (url_of ` set all1)" by (rule url_set_total[OF hu])
  have "filter (\<lambda>it. url_of it \<notin> url_of ` set all1) results = []"
    using f(4,5) by (auto simp: filter_empty_conv)
  then have nw: "not_in_urls (url_of ` set all1) results = Inr []"
    using not_in_urls_total[OF f(3), of "url_of ` set all1"] by simp
  let ?fs2 = "fs1(?p \<mapsto> JsonData \<lparr> df_url = url, df_source_key = k,
                 df_source_name = n, df_last_updated = t3,
                 df_total_count = length all1, df_items = all1 \<rparr>)"
  have "save_data L self fs1 url results k n t3 t4 = (?fs2, Inr (all1, []))"
    by (simp add: save_data_def ld us nw save_history_def)
  moreover have "stored_items ?fs2 ?p = all1" by (simp add: stored_items_def)
  ultimately show ?thesis using st1 by blast
qed

theorem save_data_idempotent_witness:
  "save_data test_lib test_storage Map.empty ''http://x'' [mk_item ''T'' ''http://x/1'']
      (Some ''k'') (Some ''src'') ''t1'' ''t2''
   = ([''data/src.json'' \<mapsto> JsonData \<lparr> df_url = ''http://x'', df_source_key = Some ''k'',
          df_source_name = Some ''src'', df_last_updated = ''t1'', df_total_count = 1,
          df_items = [mk_item ''T'' ''http://x/1''] \<rparr>,
       ''data/src_history.json'' \<mapsto> JsonHistory [\<lparr> he_timestamp = ''t2'',
          he_source_key = Some ''k'', he_source_name = Some ''src'', he_new_items_count = 1,
          he_new_items = [mk_item ''T'' ''http://x/1''] \<rparr>]],
      Inr ([mk_item ''T'' ''http://x/1''], [mk_item ''T'' ''http://x/1'']))
   \<and> (\<exists>fs2. save_data test_lib test_storage
          [''data/src.json'' \<mapsto> JsonData \<lparr> df_url = ''http://x'', df_source_key = Some ''k'',
             df_source_name = Some ''src'', df_last_updated = ''t1'', df_total_count = 1,
             df_items = [mk_item ''T'' ''http://x/1''] \<rparr>,
           ''data/src_history.json'' \<mapsto> JsonHistory [\<lparr> he_timestamp = ''t2'',
             he_source_key = Some ''k'', he_source_name = Some ''src'', he_new_items_count = 1,
             he_new_items = [mk_item ''T'' ''http://x/1''] \<rparr>]]
          ''http://x'' [mk_item ''T'' ''http://x/1''] (Some ''k'') (Some ''src'') ''t3'' ''t4''
        = (fs2, Inr ([mk_item ''T'' ''http://x/1''], []))
        \<and> stored_items fs2 ''data/src.json'' = [mk_item ''T'' ''http://x/1''])"
proof -
  have h: "save_data test_lib test_storage Map.empty ''http://x'' [mk_item ''T'' ''http://x/1'']
      (Some ''k'') (Some ''src'') ''t1'' ''t2''
   = ([''data/src.json'' \<mapsto> JsonData \<lparr> df_url = ''http://x'', df_source_key = Some ''k'',
          df_source_name = Some ''src'', df_last_updated = ''t1'', df_total_count = 1,
          df_items = [mk_item ''T'' ''http://x/1''] \<rparr>,
       ''data/src_history.json'' \<mapsto> JsonHistory [\<lparr> he_timestamp = ''t2'',
          he_source_key = Some ''k'', he_source_name = Some ''src'', he_new_items_count = 1,
          he_new_items = [mk_item ''T'' ''http://x/1''] \<rparr>]],
      Inr ([mk_item ''T'' ''http://x/1''], [mk_item ''T'' ''http://x/1'']))"
    by (simp add: save_data_def save_history_def load_existing_data_def get_items_def
        test_paths cap50_def Let_def)
  from save_data_idempotent[OF h, of "''t3''" "''t4''"] obtain fs2 where
    a: "save_data test_lib test_storage
          [''data/src.json'' \<mapsto> JsonData \<lparr> df_url = ''http://x'', df_source_key = Some ''k'',
             df_source_name = Some ''src'', df_last_updated = ''t1'', df_total_count = 1,
             df_items = [mk_item ''T'' ''http://x/1''] \<rparr>,
           ''data/src_history.json'' \<mapsto> JsonHistory [\<lparr> he_timestamp = ''t2'',
             he_source_key = Some ''k'', he_source_name = Some ''src'', he_new_items_count = 1,
             he_new_items = [mk_item ''T'' ''http://x/1''] \<rparr>]]
          ''http://x'' [mk_item ''T'' ''http://x/1''] (Some ''k'') (Some ''src'') ''t3'' ''t4''
        = (fs2, Inr ([mk_item ''T'' ''http://x/1''], []))"
    and b: "stored_items fs2 ''data/src.json'' = [mk_item ''T'' ''http://x/1'']"
    unfolding test_paths by blast
  from h a b show ?thesis by blast
qed

subsection \<open>Append-only store\<close>

text \<open>
  Claim C3. After a save that returns, the data file of the source holds an object
  whose \<^verbatim>\<open>total_count\<close> is the length of its \<^verbatim>\<open>items\<close>; the items stored before the
  save are a prefix of the items stored after it, position by position unchanged, so
  the sequence did not shrink; and the first record stored under a url before the save
  is still the first record under that url after it, with the title it had.
\<close>

theorem save_data_store_invariant:
  assumes "save_data L self fs url results k n t1 t2 = (fs', Inr (all, new))"
  shows "\<exists>d. fs' (get_data_file L self url n) = Some (JsonData d)
           \<and> df_total_count d = length (df_items d)
           \<and> df_items d = all
           \<and> all = stored_items fs (get_data_file L self url n) @ new
           \<and> prefix (stored_items fs (get_data_file L self url n)) (df_items d)
           \<and> length (stored_items fs (get_data_file L self url n)) \<le> length (df_items d)
           \<and> (\<forall>i < length (stored_items fs (get_data_file L self url n)).
                 df_items d ! i = stored_items fs (get_data_file L self url n) ! i)
           \<and> (\<forall>u x. find (\<lambda>it. it ''url'' = Some u)
                        (stored_items fs (get_data_file L self url n)) = Some x
                 \<longrightarrow> find (\<lambda>it. it ''url'' = Some u) (df_items d) = Some x)"
proof -
  let ?p = "get_data_file L self url n"
  let ?d = "\<lparr> df_url = url, df_source_key = k, df_source_name = n, df_last_updated = t1,
              df_total_count = length all, df_items = all \<rparr>"
  note f = save_data_Inr[OF assms]
  have find_app: "find P (xs @ ys) = Some x" if "find P xs = Some x"
    for P and xs ys :: "item list" and x
    using that by (induction xs) (auto split: if_splits)
  have "fs' ?p = Some (JsonData ?d)" by (rule f(6))
  moreover have "df_total_count ?d = length (df_items ?d)" by simp
  moreover have "df_items ?d = all" by simp
  moreover have "prefix (stored_items fs ?p) (df_items ?d)" using f(5) by simp
  moreover have "length (stored_items fs ?p) \<le> length (df_items ?d)" using f(5) by simp
  moreover have "\<forall>i < length (stored_items fs ?p). df_items ?d ! i = stored_items fs ?p ! i"
    using f(5) by (simp add: nth_append)
  moreover have "\<forall>u x. find (\<lambda>it. it ''url'' = Some u) (stored_items fs ?p) = Some x
                 \<longrightarrow> find (\<lambda>it. it ''url'' = Some u) (df_items ?d) = Some x"
    using f(5) find_app by simp
  ultimately show ?thesis using f(5) by blast
qed

text \<open>
  The scenario of the specification: \<open>T\<close> is stored under \<open>http://x/1\<close>; a crawl
  brings \<open>T2\<close> under the same url and \<open>U\<close> under \<open>http://x/2\<close>.
\<close>

theorem save_data_store_invariant_witness:
  "save_data test_lib test_storage
      [''data/src.json'' \<mapsto> JsonData \<lparr> df_url = ''http://x'', df_source_key = Some ''k'',
          df_source_name = Some ''src'', df_last_updated = ''t0'', df_total_count = 1,
          df_items = [mk_item ''T'' ''http://x/1''] \<rparr>]
      ''http://x'' [mk_item ''T2'' ''http://x/1'', mk_item ''U'' ''http://x/2'']
      (Some ''k'') (Some ''src'') ''t1'' ''t2''
   = ([''data/src.json'' \<mapsto> JsonData \<lparr> df_url = ''http://x'', df_source_key = Some ''k'',
          df_source_name = Some ''src'', df_last_updated = ''t1'', df_total_count = 2,
          df_items = [mk_item ''T'' ''http://x/1'', mk_item ''U'' ''http://x/2''] \<rparr>,
       ''data/src_history.json'' \<mapsto> JsonHistory [\<lparr> he_timestamp = ''t2'',
          he_source_key = Some ''k'', he_source_name = Some ''src'', he_new_items_count = 1,
          he_new_items = [mk_item ''U'' ''http://x/2''] \<rparr>]],
      Inr ([mk_item ''T'' ''http://x/1'', mk_item ''U'' ''http://x/2''],
           [mk_item ''U'' ''http://x/2'']))
   \<and> (\<exists>d. [''data/src.json'' \<mapsto> JsonData \<lparr> df_url = ''http://x'', df_source_key = Some ''k'',
            df_source_name = Some ''src'', df_last_updated = ''t1'', df_total_count = 2,
            df_items = [mk_item ''T'' ''http://x/1'', mk_item ''U'' ''http://x/2''] \<rparr>,
          ''data/src_history.json'' \<mapsto> JsonHistory [\<lparr> he_timestamp = ''t2'',
            he_source_key = Some ''k'', he_source_name = Some ''src'', he_new_items_count = 1,
            he_new_items = [mk_item ''U'' ''http://x/2''] \<rparr>]] ''data/src.json''
          = Some (JsonData d)
        \<and> df_total_count d = length (df_items d)
        \<and> prefix [mk_item ''T'' ''http://x/1''] (df_items d)
        \<and> find (\<lambda>it. it ''url'' = Some ''http://x/1'') (df_items d)
            = Some (mk_item ''T'' ''http://x/1''))"
proof -
  have h: "save_data test_lib test_storage
      [''data/src.json'' \<mapsto> JsonData \<lparr> df_url = ''http://x'', df_source_key = Some ''k'',
          df_source_name = Some ''src'', df_last_updated = ''t0'', df_total_count = 1,
          df_items = [mk_item ''T'' ''http://x/1''] \<rparr>]
      ''http://x'' [mk_item ''T2'' ''http://x/1'', mk_item ''U'' ''http://x/2'']
      (Some ''k'') (Some ''src'') ''t1'' ''t2''
   = ([''data/src.json'' \<mapsto> JsonData \<lparr> df_url = ''http://x'', df_source_key = Some ''k'',
          df_source_name = Some ''src'', df_last_updated = ''t1'', df_total_count = 2,
          df_items = [mk_item ''T'' ''http://x/1'', mk_item ''U'' ''http://x/2''] \<rparr>,
       ''data/src_history.json'' \<mapsto> JsonHistory [\<lparr> he_timestamp = ''t2'',
          he_source_key = Some ''k'', he_source_name = Some ''src'', he_new_items_count = 1,
          he_new_items = [mk_item ''U'' ''http://x/2''] \<rparr>]],
      Inr ([mk_item ''T'' ''http://x/1'', mk_item ''U'' ''http://x/2''],
           [mk_item ''U'' ''http://x/2'']))"
    by (simp add: save_data_def save_history_def load_existing_data_def get_items_def
        test_paths cap50_def Let_def numeral_2_eq_2)
  have st: "stored_items [''data/src.json'' \<mapsto> JsonData \<lparr> df_url = ''http://x'',
          df_source_key = Some ''k'', df_source_name = Some ''src'', df_last_updated = ''t0'',
          df_total_count = 1, df_items = [mk_item ''T'' ''http://x/1''] \<rparr>] ''data/src.json''
        = [mk_item ''T'' ''http://x/1'']"
    by (simp add: stored_items_def)
  have fd: "find (\<lambda>it. it ''url'' = Some ''http://x/1'') [mk_item ''T'' ''http://x/1'']
        = Some (mk_item ''T'' ''http://x/1'')"
    by (simp add: mk_item_def)
  from save_data_store_invariant[OF h] obtain d where
    d: "[''data/src.json'' \<mapsto> JsonData \<lparr> df_url = ''http://x'', df_source_key = Some ''k'',
            df_source_name = Some ''src'', df_last_updated = ''t1'', df_total_count = 2,
            df_items = [mk_item ''T'' ''http://x/1'', mk_item ''U'' ''http://x/2''] \<rparr>,
          ''data/src_history.json'' \<mapsto> JsonHistory [\<lparr> he_timestamp = ''t2'',
            he_source_key = Some ''k'', he_source_name = Some ''src'', he_new_items_count = 1,
            he_new_items = [mk_item ''U'' ''http://x/2''] \<rparr>]] ''data/src.json''
          = Some (JsonData d)"
    and c: "df_total_count d = length (df_items d)"
    and p: "prefix [mk_item ''T'' ''http://x/1''] (df_items d)"
    and f: "\<forall>u x. find (\<lambda>it. it ''url'' = Some u) [mk_item ''T'' ''http://x/1''] = Some x
                 \<longrightarrow> find (\<lambda>it. it ''url'' = Some u) (df_items d) = Some x"
    unfolding test_paths st by blast
  from f fd have "find (\<lambda>it. it ''url'' = Some ''http://x/1'') (df_items d)
            = Some (mk_item ''T'' ''http://x/1'')" by blast
  with h d c p show ?thesis by blast
qed


subsection \<open>The history log\<close>











subsection \<open>Repeated urls within one input\<close>

text \<open>
  What \<^verbatim>\<open>save_data\<close> computes as \<^verbatim>\<open>new_items\<close>: the input records whose url is not
  stored yet, in input order. Nothing compares the input records with each other.
\<close>

lemma save_data_new_items:
  assumes "save_data L self fs url results k n t1 t2 = (fs', Inr (all, new))"
  shows "new = filter (\<lambda>it. url_of it \<notin> url_of ` set (stored_items fs (get_data_file L self url n)))
                 results"
  by (rule save_data_Inr(4)[OF assms])

text \<open>
  Claim C2, at the input on which the code departs from it. Two records with the same
  url and different titles are saved into an empty directory: both are reported as new
  and both are stored, the second occurrence included.
\<close>

theorem save_data_repeated_url:
  "snd (save_data L self Map.empty url
          [mk_item ''A'' ''http://x/1'', mk_item ''B'' ''http://x/1''] k n t1 t2)
   = Inr ([mk_item ''A'' ''http://x/1'', mk_item ''B'' ''http://x/1''],
          [mk_item ''A'' ''http://x/1'', mk_item ''B'' ''http://x/1''])"
  by (simp add: save_data_def save_history_def load_existing_data_def get_items_def Let_def
      data_file_neq_history_file[THEN not_sym])

subsection \<open>Export\<close>

text \<open>
  What \<^verbatim>\<open>export_to_csv\<close> writes when the file named by the url hash holds an object
  whose records carry a title and a url.
\<close>

lemma csv_rows_total:
  "list_all (\<lambda>it. it ''title'' \<noteq> None \<and> it ''url'' \<noteq> None) its \<Longrightarrow>
   \<exists>rs. csv_rows its = Inr rs \<and> length rs = length its"
  by (induction its) (auto simp: csv_row_def subscript_def)

lemma export_to_csv_hashed:
  assumes "fs (get_data_file L self url None) = Some (JsonData d)"
    and "list_all (\<lambda>it. it ''title'' \<noteq> None \<and> it ''url'' \<noteq> None) (df_items d)"
  shows "\<exists>rs. export_to_csv L self fs url = Inr (csv_header # rs)
           \<and> length rs = length (df_items d)"
  using csv_rows_total[OF assms(2)] assms(1)
  by (auto simp: export_to_csv_def load_existing_data_def get_items_def)

lemma named_path_neq_hashed_path:
  assumes "length (md5_hexdigest L url) = 32"
  shows "get_data_file L test_storage url None \<noteq> get_data_file L test_storage url (Some ''src'')"
proof
  assume e: "get_data_file L test_storage url None = get_data_file L test_storage url (Some ''src'')"
  have "length (get_data_file L test_storage url (Some ''src'')) = 13"
    by (simp add: get_data_file_def get_file_name_def clean_name_def os_path_join_def
        test_storage_def)
  moreover have "length (get_data_file L test_storage url None) \<ge> 37"
    using assms
    by (simp add: get_data_file_def get_file_name_def os_path_join_def test_storage_def)
  ultimately show False using e by simp
qed

text \<open>
  Claim C8, at the input on which the code departs from it. A source saved under its
  display name has one record in its store; the export of that source, which looks for
  the file named by the url hash, writes the header row and nothing else.
\<close>

theorem export_to_csv_named_source:
  assumes "length (md5_hexdigest L url) = 32"
  shows "\<exists>fs'. save_data L test_storage Map.empty url [mk_item ''T'' ''http://x/1'']
                  (Some ''k'') (Some ''src'') t1 t2
                = (fs', Inr ([mk_item ''T'' ''http://x/1''], [mk_item ''T'' ''http://x/1'']))
           \<and> stored_items fs' (get_data_file L test_storage url (Some ''src''))
               = [mk_item ''T'' ''http://x/1'']
           \<and> export_to_csv L test_storage fs' url = Inr [csv_header]"
proof -
  let ?p = "get_data_file L test_storage url (Some ''src'')"
  let ?h = "get_history_file L test_storage url (Some ''src'')"
  let ?q = "get_data_file L test_storage url None"
  let ?i = "mk_item ''T'' ''http://x/1''"
  have "\<exists>fs' al nw. save_data L test_storage Map.empty url [?i] (Some ''k'') (Some ''src'') t1 t2
          = (fs', Inr (al, nw))"
    by (rule save_data_returns) (simp_all add: stored_items_def has_url_def mk_item_def)
  then obtain fs' al nw where
    s: "save_data L test_storage Map.empty url [?i] (Some ''k'') (Some ''src'') t1 t2
          = (fs', Inr (al, nw))"
    by blast
  note f = save_data_Inr[OF s]
  have nw: "nw = [?i]" using f(4) by (simp add: stored_items_def)
  have al: "al = [?i]" using f(5) nw by (simp add: stored_items_def)
  have st: "stored_items fs' ?p = [?i]" using f(6) al by (simp add: stored_items_def)
  have "?q \<noteq> ?p" by (rule named_path_neq_hashed_path[OF assms])
  moreover have "?q \<noteq> ?h"
  proof
    assume e: "?q = ?h"
    have "length ?h = 21"
      by (simp add: get_history_file_def get_file_name_def clean_name_def os_path_join_def
          test_storage_def)
    moreover have "length ?q \<ge> 37"
      using assms
      by (simp add: get_data_file_def get_file_name_def os_path_join_def test_storage_def)
    ultimately show False using e by simp
  qed
  ultimately have "fs' ?q = None"
    using save_history_other[OF f(7), of ?q] by simp
  then have "export_to_csv L test_storage fs' url = Inr [csv_header]"
    by (simp add: export_to_csv_def load_existing_data_def get_items_def)
  with s nw al st show ?thesis by blast
qed

theorem export_to_csv_named_source_witness:
  "length (md5_hexdigest test_lib ''http://x'') = 32
   \<and> (\<exists>fs'. save_data test_lib test_storage Map.empty ''http://x'' [mk_item ''T'' ''http://x/1'']
                  (Some ''k'') (Some ''src'') ''t1'' ''t2''
                = (fs', Inr ([mk_item ''T'' ''http://x/1''], [mk_item ''T'' ''http://x/1'']))
           \<and> stored_items fs' ''data/src.json'' = [mk_item ''T'' ''http://x/1'']
           \<and> export_to_csv test_lib test_storage fs' ''http://x'' = Inr [csv_header])"
proof -
  have h: "length (md5_hexdigest test_lib ''http://x'') = 32" by (simp add: test_lib_def)
  from export_to_csv_named_source[OF h, of "''t1''" "''t2''"] h show ?thesis
    unfolding test_paths by blast
qed


section \<open>Properties of the fetcher and of the crawl loop\<close>

subsection \<open>The fetcher\<close>

lemma fetch_page_3:
  "fetch_page net url 3 w =
     (case net (gets w) url of
        Some p \<Rightarrow> (Some p, w\<lparr> gets := gets w + 1, trace := trace w @ [Get url] \<rparr>)
      | None \<Rightarrow>
          (case net (gets w + 1) url of
             Some p \<Rightarrow> (Some p, w\<lparr> gets := gets w + 2,
                                    trace := trace w @ [Get url, Sleep 1, Get url] \<rparr>)
           | None \<Rightarrow> (net (gets w + 2) url,
                      w\<lparr> gets := gets w + 3,
                         trace := trace w @ [Get url, Sleep 1, Get url, Sleep 2, Get url] \<rparr>)))"
  by (simp add: fetch_page_def fetch_attempts.simps[of net url 3] Let_def split: option.splits)

lemma attempts_trace_simps:
  "attempts_trace url 1 = [Get url]"
  "attempts_trace url (Suc 0) = [Get url]"
  "attempts_trace url 2 = [Get url, Sleep 1, Get url]"
  "attempts_trace url 3 = [Get url, Sleep 1, Get url, Sleep 2, Get url]"
  by (simp_all add: attempts_trace_def numeral_2_eq_2 numeral_3_eq_3)

lemma attempts_trace_sleeps:
  "filter (\<lambda>e. e \<noteq> Get url) (attempts_trace url a) = map (\<lambda>i. Sleep (2 ^ i)) [0..<a - 1]"
proof -
  have "filter (\<lambda>e. e \<noteq> Get url) (concat (map (\<lambda>i. [Sleep (2 ^ i), Get url]) xs))
          = map (\<lambda>i. Sleep (2 ^ i)) xs" for xs :: "nat list"
    by (induction xs) auto
  then show ?thesis by (simp add: attempts_trace_def)
qed

lemma attempts_trace_last: "last (attempts_trace url a) = Get url"
proof -
  have "last (Get url # concat (map (\<lambda>i. [Sleep (2 ^ i), Get url]) xs)) = Get url"
    for xs :: "nat list"
    by (induction xs rule: rev_induct) auto
  then show ?thesis unfolding attempts_trace_def .
qed

lemma fetch_page_3_attempts:
  "\<exists>a. 1 \<le> a \<and> a \<le> 3
     \<and> fetch_page net url 3 w =
         (net (gets w + (a - 1)) url,
          w\<lparr> gets := gets w + a, trace := trace w @ attempts_trace url a \<rparr>)
     \<and> (\<forall>i < a - 1. net (gets w + i) url = None)
     \<and> (net (gets w + (a - 1)) url = None \<longrightarrow> a = 3)"
proof (cases "net (gets w) url")
  case (Some p)
  then have "fetch_page net url 3 w =
         (net (gets w + (1 - 1)) url,
          w\<lparr> gets := gets w + 1, trace := trace w @ attempts_trace url 1 \<rparr>)"
    by (simp add: fetch_page_3 attempts_trace_simps)
  with Some show ?thesis by (intro exI[of _ 1]) simp
next
  case n0: None
  show ?thesis
  proof (cases "net (gets w + 1) url")
    case (Some p)
    with n0 have "fetch_page net url 3 w =
         (net (gets w + (2 - 1)) url,
          w\<lparr> gets := gets w + 2, trace := trace w @ attempts_trace url 2 \<rparr>)"
      by (simp add: fetch_page_3 attempts_trace_simps)
    with n0 Some show ?thesis by (intro exI[of _ 2]) simp
  next
    case n1: None
    with n0 have "fetch_page net url 3 w =
         (net (gets w + (3 - 1)) url,
          w\<lparr> gets := gets w + 3, trace := trace w @ attempts_trace url 3 \<rparr>)"
      by (simp add: fetch_page_3 attempts_trace_simps)
    moreover have "\<forall>i < 3 - 1. net (gets w + i) url = None"
      using n0 n1 by (auto simp: less_Suc_eq numeral_2_eq_2)
    ultimately show ?thesis by (intro exI[of _ 3]) simp
  qed
qed

text \<open>
  Claim C6. A fetch with the bound of 3 always returns: it makes between one and three
  requests, each but the last a failure; before every request but the first it sleeps
  \<open>2 ^ i\<close> seconds, \<open>i\<close> being the index of the attempt that just failed, and the last
  event of a fetch is a request, never a sleep; its result is the outcome of its last
  request, and that is a failure only when all three attempts were made.
\<close>

theorem fetch_page_retry_policy:
  "\<exists>a. 1 \<le> a \<and> a \<le> 3
     \<and> fetch_page net url 3 w =
         (net (gets w + (a - 1)) url,
          w\<lparr> gets := gets w + a, trace := trace w @ attempts_trace url a \<rparr>)
     \<and> (\<forall>i < a - 1. net (gets w + i) url = None)
     \<and> (net (gets w + (a - 1)) url = None \<longrightarrow> a = 3)
     \<and> last (attempts_trace url a) = Get url
     \<and> filter (\<lambda>e. e \<noteq> Get url) (attempts_trace url a) = map (\<lambda>i. Sleep (2 ^ i)) [0..<a - 1]"
proof -
  from fetch_page_3_attempts[of net url w] obtain a where
    a: "1 \<le> a" "a \<le> 3"
    and f: "fetch_page net url 3 w =
         (net (gets w + (a - 1)) url,
          w\<lparr> gets := gets w + a, trace := trace w @ attempts_trace url a \<rparr>)"
    and n: "\<forall>i < a - 1. net (gets w + i) url = None"
    and e: "net (gets w + (a - 1)) url = None \<longrightarrow> a = 3"
    by (elim exE conjE) (rule that)
  have "last (attempts_trace url a) = Get url" by (rule attempts_trace_last)
  moreover have "filter (\<lambda>e. e \<noteq> Get url) (attempts_trace url a)
      = map (\<lambda>i. Sleep (2 ^ i)) [0..<a - 1]"
    by (rule attempts_trace_sleeps)
  ultimately show ?thesis using a f n e
    by - (rule exI[of _ a], (intro conjI; assumption))
qed

text \<open>Three failures in a row: two sleeps, of one and of two seconds, and no page.\<close>

theorem fetch_page_retry_policy_witness:
  "fetch_page (\<lambda>i u. (None :: unit option)) ''http://x'' 3 \<lparr> gets = 0, trace = [] \<rparr>
     = (None, \<lparr> gets = 3, trace = [Get ''http://x'', Sleep 1, Get ''http://x'', Sleep 2,
                                    Get ''http://x''] \<rparr>)
   \<and> (\<exists>a. 1 \<le> a \<and> a \<le> 3 \<and> a = 3
        \<and> fetch_page (\<lambda>i u. (None :: unit option)) ''http://x'' 3 \<lparr> gets = 0, trace = [] \<rparr>
            = (None, \<lparr> gets = a, trace = attempts_trace ''http://x'' a \<rparr>))"
proof -
  let ?net = "\<lambda>(i :: nat) (u :: string). (None :: unit option)"
  let ?w = "\<lparr> gets = 0, trace = [] \<rparr>"
  from fetch_page_retry_policy[of ?net "''http://x''" ?w] obtain a where
    a: "1 \<le> a" "a \<le> 3"
    and f: "fetch_page ?net ''http://x'' 3 ?w =
         (?net (gets ?w + (a - 1)) ''http://x'',
          ?w\<lparr> gets := gets ?w + a, trace := trace ?w @ attempts_trace ''http://x'' a \<rparr>)"
    and e: "?net (gets ?w + (a - 1)) ''http://x'' = None \<longrightarrow> a = 3"
    by (elim exE conjE) (rule that)
  from e have a3: "a = 3" by simp
  from f have f': "fetch_page ?net ''http://x'' 3 ?w
            = (None, \<lparr> gets = a, trace = attempts_trace ''http://x'' a \<rparr>)" by simp
  then have "fetch_page ?net ''http://x'' 3 ?w
     = (None, \<lparr> gets = 3, trace = [Get ''http://x'', Sleep 1, Get ''http://x'', Sleep 2,
                                    Get ''http://x''] \<rparr>)"
    using a3 by (simp add: attempts_trace_simps)
  with a a3 f' show ?thesis by blast
qed


subsection \<open>The crawl loop\<close>

lemma crawl_pages_refines:
  "crawl_pages c net url max_pages page_num results w =
     crawl_spec_pages c net url [page_num + 1..max_pages - 1] results w"
proof (induction c net url max_pages page_num results w rule: crawl_pages.induct)
  case (1 c net url max_pages page_num results w)
  show ?case
  proof (cases "page_num < max_pages - 1")
    case False
    then have "[page_num + 1..max_pages - 1] = []" by simp
    with False show ?thesis by (simp add: crawl_pages.simps[of c net url max_pages page_num])
  next
    case True
    then have u: "[page_num + 1..max_pages - 1] = (page_num + 1) # [page_num + 1 + 1..max_pages - 1]"
      by (simp add: upto_rec1)
    show ?thesis
      unfolding u
      using True "1.IH"
      by (auto simp: crawl_pages.simps[of c net url max_pages page_num] Let_def
          no_next_page_def address_of_def split: option.splits prod.splits list.splits)
  qed
qed

lemma attempts_trace_no_next: "filter is_next_page (attempts_trace u a) = []"
proof -
  have "filter is_next_page (concat (map (\<lambda>i. [Sleep (2 ^ i), Get u]) xs)) = []" for xs :: "nat list"
    by (induction xs) auto
  then show ?thesis by (simp add: attempts_trace_def)
qed

lemma fetch_page_trace:
  "\<exists>evs. trace (snd (fetch_page net u 3 w)) = trace w @ evs \<and> filter is_next_page evs = []"
proof -
  from fetch_page_3_attempts[of net u w] obtain a where
    "fetch_page net u 3 w =
         (net (gets w + (a - 1)) u,
          w\<lparr> gets := gets w + a, trace := trace w @ attempts_trace u a \<rparr>)"
    by (elim exE conjE) (rule that)
  then have "trace (snd (fetch_page net u 3 w)) = trace w @ attempts_trace u a" by simp
  then show ?thesis using attempts_trace_no_next by blast
qed

lemma crawl_pages_trace:
  "\<exists>evs m. trace (snd (crawl_pages c net url max_pages page_num results w)) = trace w @ evs
      \<and> filter is_next_page evs = map (NextPage url) [page_num + 1..m]
      \<and> m \<le> max page_num (max_pages - 1)"
proof (induction c net url max_pages page_num results w rule: crawl_pages.induct)
  case (1 c net url max_pages page_num results w)
  show ?case
  proof (cases "page_num < max_pages - 1")
    case False
    then have "crawl_pages c net url max_pages page_num results w = (results, w)"
      by (simp add: crawl_pages.simps[of c net url max_pages page_num])
    then have "trace (snd (crawl_pages c net url max_pages page_num results w)) = trace w @ []
      \<and> filter is_next_page [] = map (NextPage url) [page_num + 1..page_num]
      \<and> page_num \<le> max page_num (max_pages - 1)" by simp
    then show ?thesis by blast
  next
    case True
    let ?w1 = "w\<lparr> trace := trace w @ [NextPage url (page_num + 1)] \<rparr>"
    let ?one = "[NextPage url (page_num + 1)]"
    have stop1: "trace ?w1 = trace w @ ?one
      \<and> filter is_next_page ?one = map (NextPage url) [page_num + 1..page_num + 1]
      \<and> page_num + 1 \<le> max page_num (max_pages - 1)" using True by simp
    show ?thesis
    proof (cases "build_next_page_url c url (page_num + 1)")
      case None
      then have "crawl_pages c net url max_pages page_num results w = (results, ?w1)"
        using True by (simp add: crawl_pages.simps[of c net url max_pages page_num] Let_def)
      then show ?thesis using stop1 by (metis snd_conv)
    next
      case (Some u)
      show ?thesis
      proof (cases "u = []")
        case True
        then have "crawl_pages c net url max_pages page_num results w = (results, ?w1)"
          using \<open>page_num < max_pages - 1\<close> Some
          by (simp add: crawl_pages.simps[of c net url max_pages page_num] Let_def)
        then show ?thesis using stop1 by (metis snd_conv)
      next
        case False
        obtain r w2 where fp: "fetch_page net u 3 ?w1 = (r, w2)" by (cases "fetch_page net u 3 ?w1")
        from fetch_page_trace[of net u ?w1] fp obtain evs2 where
          t2: "trace w2 = trace w @ ?one @ evs2" and n2: "filter is_next_page evs2 = []"
          by auto
        have stop2: "trace w2 = trace w @ (?one @ evs2)
            \<and> filter is_next_page (?one @ evs2) = map (NextPage url) [page_num + 1..page_num + 1]
            \<and> page_num + 1 \<le> max page_num (max_pages - 1)"
          using t2 n2 \<open>page_num < max_pages - 1\<close> by simp
        show ?thesis
        proof (cases r)
          case None
          then have "crawl_pages c net url max_pages page_num results w = (results, w2)"
            using \<open>page_num < max_pages - 1\<close> Some False fp
            by (simp add: crawl_pages.simps[of c net url max_pages page_num] Let_def)
          then show ?thesis using stop2 by (metis snd_conv)
        next
          case soup: (Some next_soup)
          show ?thesis
          proof (cases "extract_search_results c next_soup = []")
            case True
            then have "crawl_pages c net url max_pages page_num results w = (results, w2)"
              using \<open>page_num < max_pages - 1\<close> Some False fp soup
              by (simp add: crawl_pages.simps[of c net url max_pages page_num] Let_def)
            then show ?thesis using stop2 by (metis snd_conv)
          next
            case ne: False
            let ?w3 = "w2\<lparr> trace := trace w2 @ [Sleep 1] \<rparr>"
            let ?res = "results @ extract_search_results c next_soup"
            have rec: "crawl_pages c net url max_pages page_num results w =
                  crawl_pages c net url max_pages (page_num + 1) ?res ?w3"
              using \<open>page_num < max_pages - 1\<close> Some False fp soup ne
              by (simp add: crawl_pages.simps[of c net url max_pages page_num] Let_def)
            from "1.IH"[OF \<open>page_num < max_pages - 1\<close> refl refl Some False fp[symmetric] soup refl ne]
            obtain evs m where
              ih: "trace (snd (crawl_pages c net url max_pages (page_num + 1) ?res ?w3)) = trace ?w3 @ evs"
              and f: "filter is_next_page evs = map (NextPage url) [page_num + 1 + 1..m]"
              and m: "m \<le> max (page_num + 1) (max_pages - 1)" by blast
            let ?m = "max m (page_num + 1)"
            have up: "[page_num + 1..?m] = (page_num + 1) # [page_num + 1 + 1..m]"
              by (cases "page_num + 1 \<le> m") (simp_all add: upto_rec1 max_def)
            have "trace (snd (crawl_pages c net url max_pages page_num results w))
                    = trace w @ (?one @ evs2 @ [Sleep 1] @ evs)"
              using rec ih t2 by simp
            moreover have "filter is_next_page (?one @ evs2 @ [Sleep 1] @ evs)
                    = map (NextPage url) [page_num + 1..?m]"
              using n2 f up by simp
            moreover have "?m \<le> max page_num (max_pages - 1)"
              using m \<open>page_num < max_pages - 1\<close> by simp
            ultimately show ?thesis by blast
          qed
        qed
      qed
    qed
  qed
qed

text \<open>
  Claim C5. The crawl loop is the algorithm of the specification: it returns the same
  records and makes the same calls, in the same order. With \<open>max_pages = 1\<close> it fetches
  the start address and asks for no next-page address. Whatever the bound, the
  next-page addresses it asks for are those of the start address with the page indices
  1, 2, ... up to some \<open>m\<close> below \<open>max_pages\<close>, in this order.
\<close>

theorem crawl_search_url_algorithm:
  "crawl_search_url c net url max_pages w = crawl_spec c net url max_pages w
   \<and> crawl_search_url c net url 1 w =
       (case fetch_page net url 3 w of
          (None, w1) \<Rightarrow> ([], w1)
        | (Some soup, w1) \<Rightarrow> (extract_search_results c soup, w1))
   \<and> (\<exists>evs. trace (snd (crawl_search_url c net url 1 w)) = trace w @ evs
         \<and> filter is_next_page evs = [])
   \<and> (\<exists>evs m. trace (snd (crawl_search_url c net url max_pages w)) = trace w @ evs
         \<and> filter is_next_page evs = map (NextPage url) [1..m]
         \<and> m \<le> max 0 (max_pages - 1))"
proof -
  have eq: "crawl_search_url c net url max_pages w = crawl_spec c net url max_pages w"
    by (simp add: crawl_search_url_def crawl_spec_def crawl_pages_refines
        split: prod.splits option.splits)
  have one: "crawl_search_url c net url 1 w =
       (case fetch_page net url 3 w of
          (None, w1) \<Rightarrow> ([], w1)
        | (Some soup, w1) \<Rightarrow> (extract_search_results c soup, w1))"
    by (simp add: crawl_search_url_def crawl_pages.simps[of c net url 1 0]
        split: prod.splits option.splits)
  have tr: "\<exists>evs m. trace (snd (crawl_search_url c net url mp w)) = trace w @ evs
         \<and> filter is_next_page evs = map (NextPage url) [1..m]
         \<and> m \<le> max 0 (mp - 1)" for mp
  proof -
    obtain r w1 where fp: "fetch_page net url 3 w = (r, w1)" by (cases "fetch_page net url 3 w")
    from fetch_page_trace[of net url w] fp obtain evs1 where
      t1: "trace w1 = trace w @ evs1" and n1: "filter is_next_page evs1 = []" by auto
    show ?thesis
    proof (cases r)
      case None
      then have "trace (snd (crawl_search_url c net url mp w)) = trace w @ evs1
          \<and> filter is_next_page evs1 = map (NextPage url) [1..0] \<and> (0::int) \<le> max 0 (mp - 1)"
        using fp t1 n1 by (simp add: crawl_search_url_def)
      then show ?thesis by blast
    next
      case (Some soup)
      from crawl_pages_trace[of c net url mp 0 "extract_search_results c soup" w1]
      obtain evs m where
        t: "trace (snd (crawl_pages c net url mp 0 (extract_search_results c soup) w1))
              = trace w1 @ evs"
        and f: "filter is_next_page evs = map (NextPage url) [0 + 1..m]"
        and m: "m \<le> max 0 (mp - 1)" by blast
      have "trace (snd (crawl_search_url c net url mp w)) = trace w @ (evs1 @ evs)"
        using fp Some t t1 by (simp add: crawl_search_url_def)
      moreover have "filter is_next_page (evs1 @ evs) = map (NextPage url) [1..m]"
        using n1 f by simp
      ultimately show ?thesis using m by blast
    qed
  qed
  from tr[of 1] obtain evs m where
    t: "trace (snd (crawl_search_url c net url 1 w)) = trace w @ evs"
    and f: "filter is_next_page evs = map (NextPage url) [1..m]"
    and m: "m \<le> max 0 (1 - 1)" by blast
  from m have "[1..m] = []" by simp
  with t f have none: "\<exists>evs. trace (snd (crawl_search_url c net url 1 w)) = trace w @ evs
         \<and> filter is_next_page evs = []" by auto
  from eq one none tr[of max_pages] show ?thesis by (intro conjI)
qed


text \<open>
  Worked example, with a bound of five pages: the start page and page 1 give a record
  each, page 2 gives none and ends the crawl; both next-page addresses are built from
  the start address.
\<close>

lemma crawl_search_url_example:
  "crawl_search_url page_crawler page_net ''http://x'' 5 \<lparr> gets = 0, trace = [] \<rparr>
   = ([mk_item ''T'' ''http://x'', mk_item ''T'' ''http://x?pageNum=1''],
      \<lparr> gets = 3,
        trace = [Get ''http://x'',
                 NextPage ''http://x'' 1, Get ''http://x?pageNum=1'', Sleep 1,
                 NextPage ''http://x'' 2, Get ''http://x?pageNum=2''] \<rparr>)"
proof -
  have n1: "sichuan_build_next_page_url ''http://x'' 1 = Some ''http://x?pageNum=1''"
    by code_simp
  have n2: "sichuan_build_next_page_url ''http://x'' 2 = Some ''http://x?pageNum=2''"
    by code_simp
  show ?thesis
    by (simp add: crawl_search_url_def fetch_page_3 page_net_def page_crawler_def
        SichuanFGWCrawler_def crawl_pages.simps[of _ _ _ 5 0] crawl_pages.simps[of _ _ _ 5 1]
        n1 n2 Let_def)
qed

theorem crawl_search_url_algorithm_witness:
  "crawl_spec page_crawler page_net ''http://x'' 5 \<lparr> gets = 0, trace = [] \<rparr>
   = ([mk_item ''T'' ''http://x'', mk_item ''T'' ''http://x?pageNum=1''],
      \<lparr> gets = 3,
        trace = [Get ''http://x'',
                 NextPage ''http://x'' 1, Get ''http://x?pageNum=1'', Sleep 1,
                 NextPage ''http://x'' 2, Get ''http://x?pageNum=2''] \<rparr>)
   \<and> crawl_search_url page_crawler page_net ''http://x'' 1 \<lparr> gets = 0, trace = [] \<rparr>
     = ([mk_item ''T'' ''http://x''], \<lparr> gets = 1, trace = [Get ''http://x''] \<rparr>)"
proof -
  note t = crawl_search_url_algorithm[of page_crawler page_net "''http://x''" 5
      "\<lparr> gets = 0, trace = [] \<rparr>"]
  from t have "crawl_search_url page_crawler page_net ''http://x'' 5 \<lparr> gets = 0, trace = [] \<rparr>
      = crawl_spec page_crawler page_net ''http://x'' 5 \<lparr> gets = 0, trace = [] \<rparr>"
    by (elim conjE)
  then have a: "crawl_spec page_crawler page_net ''http://x'' 5 \<lparr> gets = 0, trace = [] \<rparr>
   = ([mk_item ''T'' ''http://x'', mk_item ''T'' ''http://x?pageNum=1''],
      \<lparr> gets = 3,
        trace = [Get ''http://x'',
                 NextPage ''http://x'' 1, Get ''http://x?pageNum=1'', Sleep 1,
                 NextPage ''http://x'' 2, Get ''http://x?pageNum=2''] \<rparr>)"
    using crawl_search_url_example by simp
  from t have "crawl_search_url page_crawler page_net ''http://x'' 1 \<lparr> gets = 0, trace = [] \<rparr> =
       (case fetch_page page_net ''http://x'' 3 \<lparr> gets = 0, trace = [] \<rparr> of
          (None, w1) \<Rightarrow> ([], w1)
        | (Some soup, w1) \<Rightarrow> (extract_search_results page_crawler soup, w1))"
    by (elim conjE)
  then have b: "crawl_search_url page_crawler page_net ''http://x'' 1 \<lparr> gets = 0, trace = [] \<rparr>
     = ([mk_item ''T'' ''http://x''], \<lparr> gets = 1, trace = [Get ''http://x''] \<rparr>)"
    by (simp add: fetch_page_3 page_net_def page_crawler_def SichuanFGWCrawler_def)
  from a b show ?thesis by (rule conjI)
qed


subsection \<open>The next-page address of the two crawler classes\<close>









text \<open>
  The branch of the loop taken on \<^verbatim>\<open>not next_page_url\<close> returns right after the request
  for the next-page address, which is then the last event of the crawl. Every other
  way out of the crawl ends on a request to the network or on a sleep.
\<close>

lemma crawl_pages_none_branch:
  assumes "page_num < max_pages - 1"
    and "no_next_page (build_next_page_url c url (page_num + 1))"
  shows "crawl_pages c net url max_pages page_num results w =
           (results, w\<lparr> trace := trace w @ [NextPage url (page_num + 1)] \<rparr>)"
  using assms
  by (simp add: crawl_pages.simps[of c net url max_pages page_num] Let_def no_next_page_def
      split: option.splits)

subsection \<open>What the substitution does\<close>













text \<open>
  Worked examples of the two builders: a page parameter replaced, one appended, and a
  base address that names the parameter without a number, which comes back unchanged.
\<close>

lemma build_next_page_url_examples:
  "sichuan_build_next_page_url ''http://a/b?x=1&pageNum=1&y=2'' 3
     = Some ''http://a/b?x=1&pageNum=3&y=2''"
  "sichuan_build_next_page_url ''http://a/b?x=1'' 3 = Some ''http://a/b?x=1&pageNum=3''"
  "sichuan_build_next_page_url ''http://a/b'' 3 = Some ''http://a/b?pageNum=3''"
  "sichuan_build_next_page_url ''http://a/b?pageNum='' 3 = Some ''http://a/b?pageNum=''"
  "example_build_next_page_url ''http://a/b?top=5'' 3 = Some ''http://a/b?top=3''"
  by code_simp+


section \<open>Properties of the runner\<close>



lemma crawl_search_url_fetch_failed:
  "fst (fetch_page net url 3 w) = None \<Longrightarrow>
   crawl_search_url c net url max_pages w = ([], snd (fetch_page net url 3 w))"
  by (cases "fetch_page net url 3 w") (simp add: crawl_search_url_def)

lemma run_crawler_body_empty:
  assumes "create_crawler crawlers (su_crawler_type url_config) = Inr crawler"
    and "crawl_search_url crawler net (su_url url_config) max_pages (rs_world st) = ([], w1)"
  shows "run_crawler_body L storage crawlers net clock max_pages url_config st =
           (st\<lparr> rs_world := w1 \<rparr>, blank_result url_config)"
    and "main_body L storage crawlers net clock max_pages url_config st = st\<lparr> rs_world := w1 \<rparr>"
  using assms
  by (simp_all add: run_crawler_body_def main_body_def blank_result_def)

lemma run_crawler_body_saves:
  assumes "create_crawler crawlers (su_crawler_type url_config) = Inr crawler"
    and "crawl_search_url crawler net (su_url url_config) max_pages (rs_world st) = (results, w1)"
    and "results \<noteq> []"
  shows "rs_fs (fst (run_crawler_body L storage crawlers net clock max_pages url_config st)) =
           fst (save_data L storage (rs_fs st) (su_url url_config) results
                  (Some (su_key url_config)) (Some (su_name url_config))
                  (fst (clock (su_key url_config))) (snd (clock (su_key url_config))))"
    and "rs_fs (main_body L storage crawlers net clock max_pages url_config st) =
           fst (save_data L storage (rs_fs st) (su_url url_config) results
                  (Some (su_key url_config)) (Some (su_name url_config))
                  (fst (clock (su_key url_config))) (snd (clock (su_key url_config))))"
  using assms
  by (auto simp: run_crawler_body_def main_body_def Let_def split: prod.splits sum.splits)

text \<open>
  A new record without a title: the save is done and counted, the logging of the titles
  raises, and the error is recorded in place of the summary.
\<close>

lemma run_crawler_body_title_error:
  assumes "create_crawler crawlers (su_crawler_type url_config) = Inr crawler"
    and "crawl_search_url crawler net (su_url url_config) max_pages (rs_world st) = (results, w1)"
    and "results \<noteq> []"
    and "save_data L storage (rs_fs st) (su_url url_config) results
           (Some (su_key url_config)) (Some (su_name url_config))
           (fst (clock (su_key url_config))) (snd (clock (su_key url_config)))
         = (fs1, Inr (all_items, new_items))"
    and "log_titles (take 5 new_items) = Inl e"
  shows "run_crawler_body L storage crawlers net clock max_pages url_config st =
           (st\<lparr> rs_world := w1, rs_fs := fs1,
                total_all_items := total_all_items st + length all_items,
                total_new_items := total_new_items st + length new_items \<rparr>,
            (blank_result url_config)\<lparr> cr_crawled_count := length results,
                cr_new_count := length new_items, cr_total_count := length all_items,
                cr_new_items := new_items, cr_error := Some e \<rparr>)"
  using assms by (simp add: run_crawler_body_def blank_result_def Let_def)

text \<open>The worked example: one source of the registered type, on a network that is down.\<close>

lemma test_registry_lookup:
  "map_of test_registry ''unknown_site'' = None"
  "create_crawler test_registry ''sichuan_fgw'' = Inr (SichuanFGWCrawler (\<lambda>soup. []))"
  by (simp_all add: test_registry_def create_crawler_def)

lemma net_down_crawl:
  "crawl_search_url c net_down u max_pages \<lparr> gets = 0, trace = [] \<rparr> =
     ([], \<lparr> gets = 3, trace = [Get u, Sleep 1, Get u, Sleep 2, Get u] \<rparr>)"
  by (simp add: crawl_search_url_def fetch_page_3 net_down_def)

subsection \<open>An unregistered crawler type\<close>



subsection \<open>A crawl that brings nothing\<close>

text \<open>
  Claim C9. For a source whose crawler is created: when the crawl returns no record, the
  body of the loop, in crawler_manager.py and in main.py alike, changes nothing but the
  network and the trace: the data directory is the one it found, data file and history
  file of the source included, and the two totals are unchanged; the result recorded
  has the counts 0. A failed first fetch is such a crawl. When the crawl returns
  records, the data directory after the body is the one \<^verbatim>\<open>save_data\<close> leaves.
\<close>

theorem empty_crawl_skips_save:
  assumes "create_crawler crawlers (su_crawler_type url_config) = Inr crawler"
  shows "(crawl_search_url crawler net (su_url url_config) max_pages (rs_world st) = ([], w1) \<longrightarrow>
            run_crawler_body L storage crawlers net clock max_pages url_config st =
              (st\<lparr> rs_world := w1 \<rparr>, blank_result url_config)
          \<and> main_body L storage crawlers net clock max_pages url_config st = st\<lparr> rs_world := w1 \<rparr>
          \<and> rs_fs (fst (run_crawler_body L storage crawlers net clock max_pages url_config st))
              = rs_fs st
          \<and> total_new_items
               (fst (run_crawler_body L storage crawlers net clock max_pages url_config st))
              = total_new_items st
          \<and> total_all_items
               (fst (run_crawler_body L storage crawlers net clock max_pages url_config st))
              = total_all_items st
          \<and> rs_fs (main_body L storage crawlers net clock max_pages url_config st) = rs_fs st
          \<and> total_new_items (main_body L storage crawlers net clock max_pages url_config st)
              = total_new_items st
          \<and> total_all_items (main_body L storage crawlers net clock max_pages url_config st)
              = total_all_items st)
       \<and> (fst (fetch_page net (su_url url_config) 3 (rs_world st)) = None \<longrightarrow>
            fst (crawl_search_url crawler net (su_url url_config) max_pages (rs_world st)) = [])
       \<and> (fst (crawl_search_url crawler net (su_url url_config) max_pages (rs_world st)) \<noteq> [] \<longrightarrow>
            rs_fs (fst (run_crawler_body L storage crawlers net clock max_pages url_config st)) =
              fst (save_data L storage (rs_fs st) (su_url url_config)
                     (fst (crawl_search_url crawler net (su_url url_config) max_pages (rs_world st)))
                     (Some (su_key url_config)) (Some (su_name url_config))
                     (fst (clock (su_key url_config))) (snd (clock (su_key url_config))))
          \<and> rs_fs (main_body L storage crawlers net clock max_pages url_config st) =
              fst (save_data L storage (rs_fs st) (su_url url_config)
                     (fst (crawl_search_url crawler net (su_url url_config) max_pages (rs_world st)))
                     (Some (su_key url_config)) (Some (su_name url_config))
                     (fst (clock (su_key url_config))) (snd (clock (su_key url_config)))))"
proof (intro conjI impI)
  assume e: "crawl_search_url crawler net (su_url url_config) max_pages (rs_world st) = ([], w1)"
  note b = run_crawler_body_empty[OF assms e, of L storage clock]
  show "run_crawler_body L storage crawlers net clock max_pages url_config st =
              (st\<lparr> rs_world := w1 \<rparr>, blank_result url_config)" by (rule b(1))
  show "main_body L storage crawlers net clock max_pages url_config st = st\<lparr> rs_world := w1 \<rparr>"
    by (rule b(2))
  show "rs_fs (fst (run_crawler_body L storage crawlers net clock max_pages url_config st))
              = rs_fs st" by (simp add: b(1))
  show "total_new_items
               (fst (run_crawler_body L storage crawlers net clock max_pages url_config st))
              = total_new_items st" by (simp add: b(1))
  show "total_all_items
               (fst (run_crawler_body L storage crawlers net clock max_pages url_config st))
              = total_all_items st" by (simp add: b(1))
  show "rs_fs (main_body L storage crawlers net clock max_pages url_config st) = rs_fs st"
    by (simp add: b(2))
  show "total_new_items (main_body L storage crawlers net clock max_pages url_config st)
              = total_new_items st" by (simp add: b(2))
  show "total_all_items (main_body L storage crawlers net clock max_pages url_config st)
              = total_all_items st" by (simp add: b(2))
next
  assume "fst (fetch_page net (su_url url_config) 3 (rs_world st)) = None"
  then show "fst (crawl_search_url crawler net (su_url url_config) max_pages (rs_world st)) = []"
    by (simp add: crawl_search_url_fetch_failed)
next
  let ?r = "crawl_search_url crawler net (su_url url_config) max_pages (rs_world st)"
  assume ne: "fst ?r \<noteq> []"
  have r: "?r = (fst ?r, snd ?r)" by simp
  note s = run_crawler_body_saves[OF assms r ne, of L storage clock]
  show "rs_fs (fst (run_crawler_body L storage crawlers net clock max_pages url_config st)) =
              fst (save_data L storage (rs_fs st) (su_url url_config) (fst ?r)
                     (Some (su_key url_config)) (Some (su_name url_config))
                     (fst (clock (su_key url_config))) (snd (clock (su_key url_config))))"
    by (rule s(1))
  show "rs_fs (main_body L storage crawlers net clock max_pages url_config st) =
              fst (save_data L storage (rs_fs st) (su_url url_config) (fst ?r)
                     (Some (su_key url_config)) (Some (su_name url_config))
                     (fst (clock (su_key url_config))) (snd (clock (su_key url_config))))"
    by (rule s(2))
qed


text \<open>
  Worked examples: on a network that is down the crawl of a registered source fails at
  its first fetch, returns nothing, and the body leaves the empty data directory empty;
  on a network that answers, with an extractor that finds one record and a bound of
  one page, the body stores the record.
\<close>

theorem empty_crawl_skips_save_witness:
  "create_crawler test_registry (su_crawler_type
      \<lparr> su_key = ''k'', su_name = ''src'', su_url = ''http://x'',
        su_crawler_type = ''sichuan_fgw'' \<rparr>) = Inr (SichuanFGWCrawler (\<lambda>soup. []))
   \<and> fst (fetch_page net_down ''http://x'' 3 (rs_world test_state)) = None
   \<and> crawl_search_url (SichuanFGWCrawler (\<lambda>soup. [])) net_down ''http://x'' 20
        (rs_world test_state)
      = ([], \<lparr> gets = 3, trace = [Get ''http://x'', Sleep 1, Get ''http://x'', Sleep 2,
                                   Get ''http://x''] \<rparr>)
   \<and> run_crawler_body test_lib test_storage test_registry net_down test_clock 20
        \<lparr> su_key = ''k'', su_name = ''src'', su_url = ''http://x'',
          su_crawler_type = ''sichuan_fgw'' \<rparr> test_state
      = (test_state\<lparr> rs_world := \<lparr> gets = 3, trace = [Get ''http://x'', Sleep 1,
                        Get ''http://x'', Sleep 2, Get ''http://x''] \<rparr> \<rparr>,
         \<lparr> cr_key = ''k'', cr_name = ''src'', cr_url = ''http://x'',
           cr_crawler_type = ''sichuan_fgw'', cr_crawled_count = 0, cr_new_count = 0,
           cr_total_count = 0, cr_new_items = [], cr_error = None \<rparr>)
   \<and> rs_fs (main_body test_lib test_storage test_registry net_down test_clock 20
        \<lparr> su_key = ''k'', su_name = ''src'', su_url = ''http://x'',
          su_crawler_type = ''sichuan_fgw'' \<rparr> test_state) = Map.empty
   \<and> fst (crawl_search_url (SichuanFGWCrawler (\<lambda>soup. [mk_item ''T'' ''http://x/1'']))
             (\<lambda>i u. Some ()) ''http://x'' 1 (rs_world test_state))
      = [mk_item ''T'' ''http://x/1'']
   \<and> rs_fs (fst (run_crawler_body test_lib test_storage
          [(''sichuan_fgw'', SichuanFGWCrawler (\<lambda>soup. [mk_item ''T'' ''http://x/1'']))]
          (\<lambda>i u. Some ()) test_clock 1
          \<lparr> su_key = ''k'', su_name = ''src'', su_url = ''http://x'',
            su_crawler_type = ''sichuan_fgw'' \<rparr> test_state))
      = [''data/src.json'' \<mapsto> JsonData \<lparr> df_url = ''http://x'', df_source_key = Some ''k'',
           df_source_name = Some ''src'', df_last_updated = ''t1'', df_total_count = 1,
           df_items = [mk_item ''T'' ''http://x/1''] \<rparr>,
         ''data/src_history.json'' \<mapsto> JsonHistory [\<lparr> he_timestamp = ''t2'',
           he_source_key = Some ''k'', he_source_name = Some ''src'', he_new_items_count = 1,
           he_new_items = [mk_item ''T'' ''http://x/1''] \<rparr>]]"
proof -
  let ?src = "\<lparr> su_key = ''k'', su_name = ''src'', su_url = ''http://x'',
                su_crawler_type = ''sichuan_fgw'' \<rparr>"
  let ?w3 = "\<lparr> gets = 3, trace = [Get ''http://x'', Sleep 1, Get ''http://x'', Sleep 2,
                                   Get ''http://x''] \<rparr>"
  let ?c1 = "SichuanFGWCrawler (\<lambda>soup :: unit. [mk_item ''T'' ''http://x/1''])"
  let ?up = "\<lambda>(i :: nat) (u :: string). Some ()"
  have c: "create_crawler test_registry (su_crawler_type ?src)
             = Inr (SichuanFGWCrawler (\<lambda>soup. []))"
    by (simp add: test_registry_lookup)
  have f: "fst (fetch_page net_down ''http://x'' 3 (rs_world test_state)) = None"
    by (simp add: fetch_page_3 net_down_def)
  have e: "crawl_search_url (SichuanFGWCrawler (\<lambda>soup. [])) net_down (su_url ?src) 20
             (rs_world test_state) = ([], ?w3)"
    by (simp add: test_state_def net_down_crawl)
  note down = empty_crawl_skips_save[OF c, of net_down 20 test_state ?w3 test_lib test_storage
      test_clock]
  from down e have b: "run_crawler_body test_lib test_storage test_registry net_down
      test_clock 20 ?src test_state = (test_state\<lparr> rs_world := ?w3 \<rparr>, blank_result ?src)"
    and m: "rs_fs (main_body test_lib test_storage test_registry net_down test_clock 20 ?src
               test_state) = rs_fs test_state"
    by blast+
  have c1: "create_crawler [(''sichuan_fgw'', ?c1)] (su_crawler_type ?src) = Inr ?c1"
    by (simp add: create_crawler_def)
  have r1: "crawl_search_url ?c1 ?up (su_url ?src) 1 (rs_world test_state)
              = ([mk_item ''T'' ''http://x/1''], \<lparr> gets = 1, trace = [Get ''http://x''] \<rparr>)"
    by (simp add: crawl_search_url_def fetch_page_3 test_state_def SichuanFGWCrawler_def
        crawl_pages.simps[of _ _ _ 1 0])
  then have ne: "fst (crawl_search_url ?c1 ?up (su_url ?src) 1 (rs_world test_state)) \<noteq> []"
    by simp
  have sv: "save_data test_lib test_storage Map.empty ''http://x'' [mk_item ''T'' ''http://x/1'']
      (Some ''k'') (Some ''src'') ''t1'' ''t2''
   = ([''data/src.json'' \<mapsto> JsonData \<lparr> df_url = ''http://x'', df_source_key = Some ''k'',
          df_source_name = Some ''src'', df_last_updated = ''t1'', df_total_count = 1,
          df_items = [mk_item ''T'' ''http://x/1''] \<rparr>,
       ''data/src_history.json'' \<mapsto> JsonHistory [\<lparr> he_timestamp = ''t2'',
          he_source_key = Some ''k'', he_source_name = Some ''src'', he_new_items_count = 1,
          he_new_items = [mk_item ''T'' ''http://x/1''] \<rparr>]],
      Inr ([mk_item ''T'' ''http://x/1''], [mk_item ''T'' ''http://x/1'']))"
    by (simp add: save_data_def save_history_def load_existing_data_def get_items_def
        test_paths cap50_def Let_def)
  note up = empty_crawl_skips_save[OF c1, of ?up 1 test_state "rs_world test_state" test_lib test_storage
      test_clock]
  from up ne have bs: "rs_fs (fst (run_crawler_body test_lib test_storage
          [(''sichuan_fgw'', ?c1)] ?up test_clock 1 ?src test_state))
      = fst (save_data test_lib test_storage (rs_fs test_state) (su_url ?src)
               (fst (crawl_search_url ?c1 ?up (su_url ?src) 1 (rs_world test_state)))
               (Some (su_key ?src)) (Some (su_name ?src))
               (fst (test_clock (su_key ?src))) (snd (test_clock (su_key ?src))))"
    by blast
  have rn: "crawl_search_url ?c1 ?up ''http://x'' 1 \<lparr> gets = 0, trace = [] \<rparr>
              = ([mk_item ''T'' ''http://x/1''], \<lparr> gets = 1, trace = [Get ''http://x''] \<rparr>)"
    using r1 by (simp add: test_state_def)
  have q: "fst (save_data test_lib test_storage (rs_fs test_state) (su_url ?src)
               (fst (crawl_search_url ?c1 ?up (su_url ?src) 1 (rs_world test_state)))
               (Some (su_key ?src)) (Some (su_name ?src))
               (fst (test_clock (su_key ?src))) (snd (test_clock (su_key ?src))))
      = [''data/src.json'' \<mapsto> JsonData \<lparr> df_url = ''http://x'', df_source_key = Some ''k'',
           df_source_name = Some ''src'', df_last_updated = ''t1'', df_total_count = 1,
           df_items = [mk_item ''T'' ''http://x/1''] \<rparr>,
         ''data/src_history.json'' \<mapsto> JsonHistory [\<lparr> he_timestamp = ''t2'',
           he_source_key = Some ''k'', he_source_name = Some ''src'', he_new_items_count = 1,
           he_new_items = [mk_item ''T'' ''http://x/1''] \<rparr>]]"
    by (simp add: test_state_def test_clock_def rn sv)
  from bs q have s: "rs_fs (fst (run_crawler_body test_lib test_storage [(''sichuan_fgw'', ?c1)]
          ?up test_clock 1 ?src test_state))
      = [''data/src.json'' \<mapsto> JsonData \<lparr> df_url = ''http://x'', df_source_key = Some ''k'',
           df_source_name = Some ''src'', df_last_updated = ''t1'', df_total_count = 1,
           df_items = [mk_item ''T'' ''http://x/1''] \<rparr>,
         ''data/src_history.json'' \<mapsto> JsonHistory [\<lparr> he_timestamp = ''t2'',
           he_source_key = Some ''k'', he_source_name = Some ''src'', he_new_items_count = 1,
           he_new_items = [mk_item ''T'' ''http://x/1''] \<rparr>]]"
    by (rule trans)
  have b': "run_crawler_body test_lib test_storage test_registry net_down test_clock 20
        ?src test_state
      = (test_state\<lparr> rs_world := ?w3 \<rparr>,
         \<lparr> cr_key = ''k'', cr_name = ''src'', cr_url = ''http://x'',
           cr_crawler_type = ''sichuan_fgw'', cr_crawled_count = 0, cr_new_count = 0,
           cr_total_count = 0, cr_new_items = [], cr_error = None \<rparr>)"
    using b by (simp add: blank_result_def)
  have m': "rs_fs (main_body test_lib test_storage test_registry net_down test_clock 20 ?src
               test_state) = Map.empty"
    using m by (simp add: test_state_def)
  have e': "crawl_search_url (SichuanFGWCrawler (\<lambda>soup. [])) net_down ''http://x'' 20
             (rs_world test_state) = ([], ?w3)"
    using e by simp
  have r1': "fst (crawl_search_url ?c1 ?up ''http://x'' 1 (rs_world test_state))
      = [mk_item ''T'' ''http://x/1'']"
    using r1 by simp
  from c f e' b' m' r1' s show ?thesis by (intro conjI)
qed


end
